theory Spec2Isabelle
  imports Main "HOL-Library.Word" "HOL-Library.Sublist" "HOL-Library.AList"
begin

text \<open>
  A model of \<open>script.js\<close>, the script of a one-page recipe viewer, and the proofs of what
  its specification says about it.

  The script runs in a browser. Each of its functions is a function here, under the same
  name, from the state of the page to the new state; a function that can throw returns
  how it completed beside the state it left. What the script awaits from the network is
  an argument: the function \<open>fetch\<close> from a request to the response, or to none when the
  promise rejects. The functions of the platform that the script calls (\<open>JSON.parse\<close>,
  \<open>JSON.stringify\<close>, \<open>encodeURIComponent\<close>, \<open>trim\<close>, the property and method lookups) are
  written out after ECMA-262. The script file is read as UTF-8.
\<close>

section \<open>JavaScript strings\<close>

text \<open>
  A JavaScript string is a sequence of 16-bit code units. A literal of the source that is
  plain ASCII is written \<open>js ''...''\<close>; the few code units beyond ASCII that the source's
  messages hold are written as numbers.
\<close>

type_synonym jsstring = "16 word list"

definition js :: "string \<Rightarrow> jsstring" where
  "js s = map of_char s"

text \<open>
  \<open>String.prototype.trim\<close> removes the code units of WhiteSpace and LineTerminator from
  both ends.
\<close>

definition is_ws :: "16 word \<Rightarrow> bool" where
  "is_ws c \<longleftrightarrow>
     c = 0x09 \<or> c = 0x0A \<or> c = 0x0B \<or> c = 0x0C \<or> c = 0x0D \<or> c = 0x20 \<or> c = 0xA0 \<or>
     c = 0x1680 \<or> (0x2000 \<le> c \<and> c \<le> 0x200A) \<or> c = 0x2028 \<or> c = 0x2029 \<or>
     c = 0x202F \<or> c = 0x205F \<or> c = 0x3000 \<or> c = 0xFEFF"

definition trim :: "jsstring \<Rightarrow> jsstring" where
  "trim s = rev (dropWhile is_ws (rev (dropWhile is_ws s)))"

definition is_digit :: "16 word \<Rightarrow> bool" where
  "is_digit c \<longleftrightarrow> 0x30 \<le> c \<and> c \<le> 0x39"

text \<open>The decimal numeral of a natural number, as a template literal prints a loop index.\<close>

fun decimal :: "nat \<Rightarrow> jsstring" where
  "decimal n =
     (if n < 10 then [of_nat (48 + n)] else decimal (n div 10) @ [of_nat (48 + n mod 10)])"

declare decimal.simps [simp del]

definition digits_val :: "jsstring \<Rightarrow> int" where
  "digits_val k = foldl (\<lambda>a c. 10 * a + (uint c - 48)) 0 k"

text \<open>
  A property key that is a canonical array index: a decimal numeral without a leading
  zero, below \<open>2^32 - 1\<close>.
\<close>

definition index_key :: "jsstring \<Rightarrow> nat option" where
  "index_key k =
     (if k \<noteq> [] \<and> list_all is_digit k \<and> (hd k \<noteq> 0x30 \<or> k = [0x30]) \<and>
         digits_val k < 4294967295
      then Some (nat (digits_val k)) else None)"

fun join :: "jsstring \<Rightarrow> jsstring list \<Rightarrow> jsstring" where
  "join sep [] = []"
| "join sep [x] = x"
| "join sep (x # y # ys) = x @ sep @ join sep (y # ys)"

section \<open>JavaScript values\<close>

text \<open>
  The values the program handles are \<open>undefined\<close> and the values \<open>JSON.parse\<close> builds.
  The program does no arithmetic: a number is carried as the numeral it is written with
  (\<open>JNum\<close>), so its truth value and its text are those of that numeral and two numbers are
  equal when their numerals are, which is what JavaScript gives for numerals in the form
  \<open>JSON.stringify\<close> itself prints. An object is the list of its own properties in
  enumeration order.
\<close>

datatype jsval =
    JUndefined
  | JNull
  | JBool bool
  | JNum jsstring
  | JStr jsstring
  | JArr "jsval list"
  | JObj "(jsstring \<times> jsval) list"

datatype error = TypeError | SyntaxError | URIError | DOMException | Error jsstring

definition num_is_zero :: "jsstring \<Rightarrow> bool" where
  "num_is_zero l \<longleftrightarrow>
     list_all (\<lambda>c. \<not> (0x31 \<le> c \<and> c \<le> 0x39)) (takeWhile (\<lambda>c. c \<noteq> 0x65 \<and> c \<noteq> 0x45) l)"

fun truthy :: "jsval \<Rightarrow> bool" where
  "truthy JUndefined = False"
| "truthy JNull = False"
| "truthy (JBool b) = b"
| "truthy (JNum l) = (\<not> num_is_zero l)"
| "truthy (JStr s) = (s \<noteq> [])"
| "truthy (JArr xs) = True"
| "truthy (JObj ms) = True"

text \<open>\<open>ToString\<close>, as a template literal applies it to an interpolated value.\<close>

fun ToString :: "jsval \<Rightarrow> jsstring" where
  "ToString JUndefined = js ''undefined''"
| "ToString JNull = js ''null''"
| "ToString (JBool b) = (if b then js ''true'' else js ''false'')"
| "ToString (JNum l) = l"
| "ToString (JStr s) = s"
| "ToString (JArr xs) =
     join (js '','') (map (\<lambda>x. if x = JUndefined \<or> x = JNull then [] else ToString x) xs)"
| "ToString (JObj ms) = js ''[object Object]''"

text \<open>
  Reading a property \<open>v[k]\<close>. It raises a TypeError on \<open>undefined\<close> and \<open>null\<close>. The keys
  the program reads name no built-in method, so the prototype chain adds nothing.
\<close>

fun get_prop :: "jsval \<Rightarrow> jsstring \<Rightarrow> error + jsval" where
  "get_prop JUndefined k = Inl TypeError"
| "get_prop JNull k = Inl TypeError"
| "get_prop (JObj ms) k = Inr (case map_of ms k of Some v \<Rightarrow> v | None \<Rightarrow> JUndefined)"
| "get_prop (JArr xs) k =
     Inr (if k = js ''length'' then JNum (decimal (length xs))
          else case index_key k of
                 Some i \<Rightarrow> if i < length xs then xs ! i else JUndefined
               | None \<Rightarrow> JUndefined)"
| "get_prop (JStr s) k =
     Inr (if k = js ''length'' then JNum (decimal (length s))
          else case index_key k of
                 Some i \<Rightarrow> if i < length s then JStr [s ! i] else JUndefined
               | None \<Rightarrow> JUndefined)"
| "get_prop (JBool b) k = Inr JUndefined"
| "get_prop (JNum l) k = Inr JUndefined"

text \<open>Optional chaining \<open>v?.[k]\<close>: \<open>undefined\<close> where \<open>v\<close> is \<open>undefined\<close> or \<open>null\<close>.\<close>

definition opt_prop :: "jsval \<Rightarrow> jsstring \<Rightarrow> jsval" where
  "opt_prop v k = (case get_prop v k of Inl e \<Rightarrow> JUndefined | Inr x \<Rightarrow> x)"

text \<open>
  The call \<open>v.trim()\<close> on a value that is neither \<open>undefined\<close> nor \<open>null\<close>: only a string
  has the method; on any other value \<open>v.trim\<close> is not a function.
\<close>

fun trim_call :: "jsval \<Rightarrow> error + jsval" where
  "trim_call (JStr s) = Inr (JStr (trim s))"
| "trim_call v = Inl TypeError"

section \<open>The ingredient list of a recipe\<close>

text \<open>The test \<open>ing && ing.trim()\<close> of both ingredient loops.\<close>

definition ing_and_trim :: "jsval \<Rightarrow> error + bool" where
  "ing_and_trim ing =
     (if truthy ing
      then (case trim_call ing of Inl e \<Rightarrow> Inl e | Inr t \<Rightarrow> Inr (truthy t))
      else Inr False)"

definition ingredient_key :: "nat \<Rightarrow> jsstring" where
  "ingredient_key i = js ''strIngredient'' @ decimal i"

definition measure_key :: "nat \<Rightarrow> jsstring" where
  "measure_key i = js ''strMeasure'' @ decimal i"

text \<open>The list item \<open><li>${meas ? `${meas} ` : ""}${ing}</li>\<close>.\<close>

definition li_html :: "jsval \<Rightarrow> jsval \<Rightarrow> jsstring" where
  "li_html meas ing =
     js ''<li>'' @ (if truthy meas then ToString meas @ js '' '' else []) @ ToString ing @
     js ''</li>''"

function getIngredientsHtml_loop :: "jsval \<Rightarrow> nat \<Rightarrow> jsstring \<Rightarrow> error + jsstring" where
  "getIngredientsHtml_loop recipe i html =
     (if i \<le> 20 then
        (case get_prop recipe (ingredient_key i) of
           Inl e \<Rightarrow> Inl e
         | Inr ing \<Rightarrow>
            (case get_prop recipe (measure_key i) of
               Inl e \<Rightarrow> Inl e
             | Inr meas \<Rightarrow>
                (case ing_and_trim ing of
                   Inl e \<Rightarrow> Inl e
                 | Inr c \<Rightarrow>
                     getIngredientsHtml_loop recipe (i + 1)
                       (if c then html @ li_html meas ing else html))))
      else Inr html)"
  by pat_completeness auto
termination
  by (relation "measure (\<lambda>(recipe, i, html). 21 - i)") auto

declare getIngredientsHtml_loop.simps [simp del]

definition getIngredientsHtml :: "jsval \<Rightarrow> error + jsstring" where
  "getIngredientsHtml recipe = getIngredientsHtml_loop recipe 1 []"

text \<open>
  The loop at the head of \<open>remixRecipe\<close>, which builds the array \<open>ingredients\<close> of the
  lines \<open>`${meas ? meas + ' ' : ''}${ing}`\<close>.
\<close>

definition ingredient_line :: "jsval \<Rightarrow> jsval \<Rightarrow> jsstring" where
  "ingredient_line meas ing =
     (if truthy meas then ToString meas @ js '' '' else []) @ ToString ing"

function remixRecipe_ingredients_loop ::
  "jsval \<Rightarrow> nat \<Rightarrow> jsstring list \<Rightarrow> error + jsstring list" where
  "remixRecipe_ingredients_loop recipeJson i ingredients =
     (if i \<le> 20 then
        (case get_prop recipeJson (ingredient_key i) of
           Inl e \<Rightarrow> Inl e
         | Inr ing \<Rightarrow>
            (case get_prop recipeJson (measure_key i) of
               Inl e \<Rightarrow> Inl e
             | Inr meas \<Rightarrow>
                (case ing_and_trim ing of
                   Inl e \<Rightarrow> Inl e
                 | Inr c \<Rightarrow>
                     remixRecipe_ingredients_loop recipeJson (i + 1)
                       (if c then ingredients @ [ingredient_line meas ing] else ingredients))))
      else Inr ingredients)"
  by pat_completeness auto
termination
  by (relation "measure (\<lambda>(recipeJson, i, ingredients). 21 - i)") auto

declare remixRecipe_ingredients_loop.simps [simp del]

definition remixRecipe_ingredients :: "jsval \<Rightarrow> error + jsstring list" where
  "remixRecipe_ingredients recipeJson = remixRecipe_ingredients_loop recipeJson 1 []"

section \<open>JSON text\<close>

subsection \<open>\<open>JSON.stringify\<close>\<close>

definition hex_digit :: "nat \<Rightarrow> 16 word" where
  "hex_digit n = (if n < 10 then of_nat (48 + n) else of_nat (87 + n))"

definition unicode_escape :: "16 word \<Rightarrow> jsstring" where
  "unicode_escape c =
     [0x5C, 0x75, hex_digit (unat c div 4096), hex_digit (unat c div 256 mod 16),
      hex_digit (unat c div 16 mod 16), hex_digit (unat c mod 16)]"

definition is_high :: "16 word \<Rightarrow> bool" where
  "is_high c \<longleftrightarrow> 0xD800 \<le> c \<and> c \<le> 0xDBFF"

definition is_low :: "16 word \<Rightarrow> bool" where
  "is_low c \<longleftrightarrow> 0xDC00 \<le> c \<and> c \<le> 0xDFFF"

text \<open>
  QuoteJSONString: the short escapes, \<open>\<bslash>uXXXX\<close> for the other control characters and for a
  surrogate that is not half of a pair, every other code unit as it is.
\<close>

fun quote_body :: "jsstring \<Rightarrow> jsstring" where
  "quote_body [] = []"
| "quote_body (c # cs) =
     (if c = 0x08 then [0x5C, 0x62] @ quote_body cs
      else if c = 0x09 then [0x5C, 0x74] @ quote_body cs
      else if c = 0x0A then [0x5C, 0x6E] @ quote_body cs
      else if c = 0x0C then [0x5C, 0x66] @ quote_body cs
      else if c = 0x0D then [0x5C, 0x72] @ quote_body cs
      else if c = 0x22 then [0x5C, 0x22] @ quote_body cs
      else if c = 0x5C then [0x5C, 0x5C] @ quote_body cs
      else if c < 0x20 then unicode_escape c @ quote_body cs
      else if is_high c then
        (case cs of
           [] \<Rightarrow> unicode_escape c
         | d # ds \<Rightarrow>
             if is_low d then c # d # quote_body ds else unicode_escape c @ quote_body cs)
      else if is_low c then unicode_escape c @ quote_body cs
      else c # quote_body cs)"

definition quote :: "jsstring \<Rightarrow> jsstring" where
  "quote s = [0x22] @ quote_body s @ [0x22]"

text \<open>
  SerializeJSONProperty with the gap \<open>gap\<close> at the indentation \<open>ind\<close>; \<open>None\<close> is the
  result \<open>undefined\<close>. A property whose value is \<open>undefined\<close> is left out, an array element
  that is \<open>undefined\<close> prints as \<open>null\<close>.
\<close>

fun stringify :: "jsstring \<Rightarrow> jsstring \<Rightarrow> jsval \<Rightarrow> jsstring option"
  and stringify_elems :: "jsstring \<Rightarrow> jsstring \<Rightarrow> jsval list \<Rightarrow> jsstring list"
  and stringify_members :: "jsstring \<Rightarrow> jsstring \<Rightarrow> (jsstring \<times> jsval) list \<Rightarrow> jsstring list"
  where
  "stringify gap ind JUndefined = None"
| "stringify gap ind JNull = Some (js ''null'')"
| "stringify gap ind (JBool b) = Some (if b then js ''true'' else js ''false'')"
| "stringify gap ind (JNum l) = Some l"
| "stringify gap ind (JStr s) = Some (quote s)"
| "stringify gap ind (JArr xs) =
     Some (if xs = [] then js ''[]''
           else if gap = [] then
             js ''['' @ join (js '','') (stringify_elems gap (ind @ gap) xs) @ js '']''
           else
             js ''['' @ [0x0A] @ ind @ gap @
             join (js '','' @ [0x0A] @ ind @ gap) (stringify_elems gap (ind @ gap) xs) @
             [0x0A] @ ind @ js '']'')"
| "stringify gap ind (JObj ms) =
     Some (if stringify_members gap (ind @ gap) ms = [] then js ''{}''
           else if gap = [] then
             js ''{'' @ join (js '','') (stringify_members gap (ind @ gap) ms) @ js ''}''
           else
             js ''{'' @ [0x0A] @ ind @ gap @
             join (js '','' @ [0x0A] @ ind @ gap) (stringify_members gap (ind @ gap) ms) @
             [0x0A] @ ind @ js ''}'')"
| "stringify_elems gap ind [] = []"
| "stringify_elems gap ind (x # xs) =
     (case stringify gap ind x of None \<Rightarrow> js ''null'' | Some t \<Rightarrow> t) #
     stringify_elems gap ind xs"
| "stringify_members gap ind [] = []"
| "stringify_members gap ind ((k, v) # ms) =
     (case stringify gap ind v of
        None \<Rightarrow> stringify_members gap ind ms
      | Some t \<Rightarrow>
          (quote k @ js '':'' @ (if gap = [] then [] else js '' '') @ t) #
          stringify_members gap ind ms)"

text \<open>\<open>JSON.stringify(v)\<close> and \<open>JSON.stringify(v, null, 2)\<close>.\<close>

definition JSON_stringify :: "jsval \<Rightarrow> jsstring option" where
  "JSON_stringify v = stringify [] [] v"

definition JSON_stringify_2 :: "jsval \<Rightarrow> jsstring option" where
  "JSON_stringify_2 v = stringify (js ''  '') [] v"

subsection \<open>\<open>JSON.parse\<close>\<close>

text \<open>
  The parser reads the text one code unit at a time, with a stack of the arrays and objects
  that are open. A property is created as \<open>CreateDataProperty\<close> does on an ordinary
  object: a key that exists keeps its place and takes the new value, a new array-index
  key goes among the index keys in ascending order, any other new key goes last.
\<close>

fun obj_define :: "jsstring \<Rightarrow> jsval \<Rightarrow> (jsstring \<times> jsval) list \<Rightarrow> (jsstring \<times> jsval) list" where
  "obj_define k v [] = [(k, v)]"
| "obj_define k v ((k', v') # ms) =
     (if k' = k then (k, v) # ms
      else if k \<notin> fst ` set ms \<and>
              (case index_key k of
                 None \<Rightarrow> False
               | Some i \<Rightarrow> (case index_key k' of None \<Rightarrow> True | Some i' \<Rightarrow> i < i'))
           then (k, v) # (k', v') # ms
      else (k', v') # obj_define k v ms)"

datatype numstate = NMinus | NZero | NInt | NDot | NFrac | NExp | NExpSign | NExpDigits

datatype frame =
    FArr "jsval list"
  | FObj "(jsstring \<times> jsval) list"
  | FVal "(jsstring \<times> jsval) list" jsstring

datatype mode =
    MValue
  | MArrStart
  | MObjStart
  | MKey
  | MColon
  | MAfter
  | MDone jsval
  | MStr bool jsstring
  | MEsc bool jsstring
  | MHex bool jsstring nat nat
  | MLit jsstring jsval
  | MNum numstate jsstring
  | MFail

type_synonym pstate = "mode \<times> frame list"

definition is_json_ws :: "16 word \<Rightarrow> bool" where
  "is_json_ws c \<longleftrightarrow> c = 0x09 \<or> c = 0x0A \<or> c = 0x0D \<or> c = 0x20"

definition hex_val :: "16 word \<Rightarrow> nat option" where
  "hex_val c =
     (if 0x30 \<le> c \<and> c \<le> 0x39 then Some (unat c - 48)
      else if 0x61 \<le> c \<and> c \<le> 0x66 then Some (unat c - 87)
      else if 0x41 \<le> c \<and> c \<le> 0x46 then Some (unat c - 55)
      else None)"

text \<open>A value is complete: it is the whole text, an array element or a property value.\<close>

fun complete :: "jsval \<Rightarrow> frame list \<Rightarrow> pstate" where
  "complete v [] = (MDone v, [])"
| "complete v (FArr xs # st) = (MAfter, FArr (xs @ [v]) # st)"
| "complete v (FVal ms k # st) = (MAfter, FObj (obj_define k v ms) # st)"
| "complete v (FObj ms # st) = (MFail, [])"

text \<open>Where a value is expected; \<open>fresh\<close> says that an array was just opened.\<close>

definition value_step :: "bool \<Rightarrow> 16 word \<Rightarrow> frame list \<Rightarrow> pstate" where
  "value_step fresh c st =
     (if is_json_ws c then (if fresh then MArrStart else MValue, st)
      else if c = 0x22 then (MStr False [], st)
      else if c = 0x5B then (MArrStart, FArr [] # st)
      else if c = 0x7B then (MObjStart, FObj [] # st)
      else if c = 0x5D \<and> fresh then
        (case st of FArr xs # st' \<Rightarrow> complete (JArr xs) st' | _ \<Rightarrow> (MFail, []))
      else if c = 0x74 then (MLit (js ''rue'') (JBool True), st)
      else if c = 0x66 then (MLit (js ''alse'') (JBool False), st)
      else if c = 0x6E then (MLit (js ''ull'') JNull, st)
      else if c = 0x2D then (MNum NMinus [c], st)
      else if c = 0x30 then (MNum NZero [c], st)
      else if 0x31 \<le> c \<and> c \<le> 0x39 then (MNum NInt [c], st)
      else (MFail, []))"

text \<open>After a complete value, inside an array or an object.\<close>

definition after_step :: "16 word \<Rightarrow> frame list \<Rightarrow> pstate" where
  "after_step c st =
     (if is_json_ws c then (MAfter, st)
      else case st of
             FArr xs # st' \<Rightarrow>
               if c = 0x2C then (MValue, st)
               else if c = 0x5D then complete (JArr xs) st'
               else (MFail, [])
           | FObj ms # st' \<Rightarrow>
               if c = 0x2C then (MKey, st)
               else if c = 0x7D then complete (JObj ms) st'
               else (MFail, [])
           | _ \<Rightarrow> (MFail, []))"

text \<open>The code unit that ends a number is read again in the state the number leaves.\<close>

fun resume :: "pstate \<Rightarrow> 16 word \<Rightarrow> pstate" where
  "resume (MAfter, st) c = after_step c st"
| "resume (MDone v, st) c = (if is_json_ws c then (MDone v, st) else (MFail, []))"
| "resume (m, st) c = (MFail, [])"

fun num_final :: "numstate \<Rightarrow> bool" where
  "num_final NZero = True"
| "num_final NInt = True"
| "num_final NFrac = True"
| "num_final NExpDigits = True"
| "num_final ns = False"

fun num_next :: "numstate \<Rightarrow> 16 word \<Rightarrow> numstate option" where
  "num_next NMinus c =
     (if c = 0x30 then Some NZero else if 0x31 \<le> c \<and> c \<le> 0x39 then Some NInt else None)"
| "num_next NZero c =
     (if c = 0x2E then Some NDot else if c = 0x65 \<or> c = 0x45 then Some NExp else None)"
| "num_next NInt c =
     (if is_digit c then Some NInt else if c = 0x2E then Some NDot
      else if c = 0x65 \<or> c = 0x45 then Some NExp else None)"
| "num_next NDot c = (if is_digit c then Some NFrac else None)"
| "num_next NFrac c =
     (if is_digit c then Some NFrac else if c = 0x65 \<or> c = 0x45 then Some NExp else None)"
| "num_next NExp c =
     (if c = 0x2B \<or> c = 0x2D then Some NExpSign
      else if is_digit c then Some NExpDigits else None)"
| "num_next NExpSign c = (if is_digit c then Some NExpDigits else None)"
| "num_next NExpDigits c = (if is_digit c then Some NExpDigits else None)"

fun step :: "pstate \<Rightarrow> 16 word \<Rightarrow> pstate" where
  "step (MValue, st) c = value_step False c st"
| "step (MArrStart, st) c = value_step True c st"
| "step (MObjStart, st) c =
     (if is_json_ws c then (MObjStart, st)
      else if c = 0x22 then (MStr True [], st)
      else if c = 0x7D then
        (case st of FObj ms # st' \<Rightarrow> complete (JObj ms) st' | _ \<Rightarrow> (MFail, []))
      else (MFail, []))"
| "step (MKey, st) c =
     (if is_json_ws c then (MKey, st)
      else if c = 0x22 then (MStr True [], st)
      else (MFail, []))"
| "step (MColon, st) c =
     (if is_json_ws c then (MColon, st)
      else if c = 0x3A then (MValue, st)
      else (MFail, []))"
| "step (MAfter, st) c = after_step c st"
| "step (MDone v, st) c = (if is_json_ws c then (MDone v, st) else (MFail, []))"
| "step (MStr key acc, st) c =
     (if c = 0x22 then
        (if key then
           (case st of FObj ms # st' \<Rightarrow> (MColon, FVal ms acc # st') | _ \<Rightarrow> (MFail, []))
         else complete (JStr acc) st)
      else if c = 0x5C then (MEsc key acc, st)
      else if c < 0x20 then (MFail, [])
      else (MStr key (acc @ [c]), st))"
| "step (MEsc key acc, st) c =
     (if c = 0x22 \<or> c = 0x5C \<or> c = 0x2F then (MStr key (acc @ [c]), st)
      else if c = 0x62 then (MStr key (acc @ [0x08]), st)
      else if c = 0x66 then (MStr key (acc @ [0x0C]), st)
      else if c = 0x6E then (MStr key (acc @ [0x0A]), st)
      else if c = 0x72 then (MStr key (acc @ [0x0D]), st)
      else if c = 0x74 then (MStr key (acc @ [0x09]), st)
      else if c = 0x75 then (MHex key acc 0 0, st)
      else (MFail, []))"
| "step (MHex key acc n v, st) c =
     (case hex_val c of
        None \<Rightarrow> (MFail, [])
      | Some d \<Rightarrow>
          if n = 3 then (MStr key (acc @ [of_nat (v * 16 + d)]), st)
          else (MHex key acc (n + 1) (v * 16 + d), st))"
| "step (MLit rest v, st) c =
     (case rest of
        [] \<Rightarrow> (MFail, [])
      | r # rs \<Rightarrow>
          if c \<noteq> r then (MFail, [])
          else if rs = [] then complete v st
          else (MLit rs v, st))"
| "step (MNum ns l, st) c =
     (case num_next ns c of
        Some ns' \<Rightarrow> (MNum ns' (l @ [c]), st)
      | None \<Rightarrow> if num_final ns then resume (complete (JNum l) st) c else (MFail, []))"
| "step (MFail, st) c = (MFail, [])"

text \<open>\<open>JSON.parse\<close>: the value, or the SyntaxError it raises.\<close>

definition JSON_parse :: "jsstring \<Rightarrow> error + jsval" where
  "JSON_parse text =
     (case foldl step (MValue, []) text of
        (MDone v, st) \<Rightarrow> Inr v
      | (MNum ns l, st) \<Rightarrow> if num_final ns \<and> st = [] then Inr (JNum l) else Inl SyntaxError
      | _ \<Rightarrow> Inl SyntaxError)"

section \<open>The page\<close>

subsection \<open>What the browser holds\<close>

text \<open>
  The durable slot is the entry of \<open>localStorage\<close> under the key \<open>savedRecipes\<close>. Reading
  it and writing it can fail (access denied, quota exceeded): \<open>readable\<close> says whether
  \<open>getItem\<close> returns, \<open>writable\<close> which texts \<open>setItem\<close> stores. What the program prints
  on the console is not part of the state.
\<close>

record storage =
  stored :: "jsstring option"
  readable :: bool
  writable :: "jsstring \<Rightarrow> bool"

definition getItem :: "storage \<Rightarrow> error + jsstring option" where
  "getItem sto = (if readable sto then Inr (stored sto) else Inl DOMException)"

definition setItem :: "storage \<Rightarrow> jsstring \<Rightarrow> error + storage" where
  "setItem sto text =
     (if writable sto text then Inr (sto\<lparr>stored := Some text\<rparr>) else Inl DOMException)"

text \<open>
  A request the program sends, and the network's answer to it: a response, or none when
  \<open>fetch\<close> rejects. \<open>res.ok\<close> is a status from 200 to 299.
\<close>

datatype request =
    GET jsstring
  | POST jsstring "(jsstring \<times> jsstring) list" jsstring

record response =
  status :: nat
  body :: jsstring

definition ok :: "response \<Rightarrow> bool" where
  "ok res \<longleftrightarrow> 200 \<le> status res \<and> status res \<le> 299"

type_synonym network = "request \<Rightarrow> response option"

text \<open>
  An entry of the saved list as \<open>renderSavedRecipesList\<close> builds it: the text of its name
  span, and the value \<open>name\<close> that its two click listeners hold.
\<close>

datatype saved_item = SavedItem (item_text: jsstring) (item_name: jsval)

text \<open>
  The state of the page: the global \<open>currentRecipe\<close>, the \<open>innerHTML\<close> of the two output
  regions, the value of the theme selector, the \<open>style.display\<close> of the saved-recipes
  container and the children of the saved list (each \<open>None\<close> when the page has no such
  element), the storage, the key that \<open>secrets.js\<close> defines, and the requests sent so
  far.
\<close>

record page =
  currentRecipe :: jsval
  recipeDisplay :: jsstring
  remixOutput :: jsstring
  remixThemeSelect :: "jsstring option"
  savedContainer :: "jsstring option"
  savedList :: "saved_item list option"
  localStorage :: storage
  OPENAI_API_KEY :: jsstring
  requests :: "request list"

datatype completion = Normal | Throw error

subsection \<open>Methods the program calls\<close>

text \<open>
  \<open>===\<close> and SameValueZero on the values at hand. An array or an object is equal only to
  itself, and the program never compares one with itself: the two sides always come
  from different calls of \<open>JSON.parse\<close>.
\<close>

fun strict_equal :: "jsval \<Rightarrow> jsval \<Rightarrow> bool" where
  "strict_equal (JArr xs) y = False"
| "strict_equal (JObj ms) y = False"
| "strict_equal x y = (x = y)"

text \<open>\<open>list.includes(name)\<close>: an array and a string have the method, nothing else has.\<close>

fun includes_call :: "jsval \<Rightarrow> jsval \<Rightarrow> error + bool" where
  "includes_call (JArr xs) name = Inr (list_ex (\<lambda>x. strict_equal x name) xs)"
| "includes_call (JStr s) name = Inr (sublist (ToString name) s)"
| "includes_call v name = Inl TypeError"

fun push_call :: "jsval \<Rightarrow> jsval \<Rightarrow> error + jsval" where
  "push_call (JArr xs) name = Inr (JArr (xs @ [name]))"
| "push_call v name = Inl TypeError"

text \<open>\<open>list.filter(n => n !== name)\<close>.\<close>

fun filter_call :: "jsval \<Rightarrow> jsval \<Rightarrow> error + jsval" where
  "filter_call (JArr xs) name = Inr (JArr (filter (\<lambda>n. \<not> strict_equal n name) xs))"
| "filter_call v name = Inl TypeError"

text \<open>The test \<open>list.length === 0\<close>.\<close>

fun length_is_zero :: "jsval \<Rightarrow> error + bool" where
  "length_is_zero JUndefined = Inl TypeError"
| "length_is_zero JNull = Inl TypeError"
| "length_is_zero (JArr xs) = Inr (xs = [])"
| "length_is_zero (JStr s) = Inr (s = [])"
| "length_is_zero (JObj ms) =
     Inr (case map_of ms (js ''length'') of Some (JNum l) \<Rightarrow> num_is_zero l | _ \<Rightarrow> False)"
| "length_is_zero v = Inr False"

text \<open>Assigning to \<open>textContent\<close>: \<open>null\<close> gives the empty text.\<close>

definition textContent :: "jsval \<Rightarrow> jsstring" where
  "textContent v = (if v = JNull then [] else ToString v)"

text \<open>\<open>list.forEach\<close> with the callback that builds one entry; only an array has it.\<close>

definition saved_entry :: "jsval \<Rightarrow> saved_item" where
  "saved_entry name = SavedItem (textContent name) name"

fun forEach_call :: "jsval \<Rightarrow> error + saved_item list" where
  "forEach_call (JArr xs) = Inr (map saved_entry xs)"
| "forEach_call v = Inl TypeError"

text \<open>The three replacements: \<open>/\<bslash>r?\<bslash>n/g\<close>, \<open>/\<bslash>n\<bslash>n/g\<close> and \<open>/\<bslash>n/g\<close>.\<close>

fun replace_crlf :: "jsstring \<Rightarrow> jsstring" where
  "replace_crlf [] = []"
| "replace_crlf (c # cs) =
     (if c = 0x0A then js ''<br>'' @ replace_crlf cs
      else if c = 0x0D then
        (case cs of
           [] \<Rightarrow> [c]
         | d # ds \<Rightarrow>
             if d = 0x0A then js ''<br>'' @ replace_crlf ds else c # replace_crlf cs)
      else c # replace_crlf cs)"

fun replace_lflf :: "jsstring \<Rightarrow> jsstring" where
  "replace_lflf [] = []"
| "replace_lflf (c # cs) =
     (if c = 0x0A then
        (case cs of
           [] \<Rightarrow> [c]
         | d # ds \<Rightarrow>
             if d = 0x0A then js ''<br><br>'' @ replace_lflf ds else c # replace_lflf cs)
      else c # replace_lflf cs)"

definition replace_lf :: "jsstring \<Rightarrow> jsstring" where
  "replace_lf s = concat (map (\<lambda>c. if c = 0x0A then js ''<br>'' else [c]) s)"

text \<open>\<open>v.replace(...)\<close> with \<open>f\<close> the replacement: only a string has the method.\<close>

fun replace_call :: "(jsstring \<Rightarrow> jsstring) \<Rightarrow> jsval \<Rightarrow> error + jsstring" where
  "replace_call f (JStr s) = Inr (f s)"
| "replace_call f v = Inl TypeError"

text \<open>
  \<open>encodeURIComponent\<close>: the UTF-8 bytes of every code point but the unreserved ones, each
  as \<open>%XX\<close>; a URIError on a surrogate that is not half of a pair.
\<close>

definition uri_unreserved :: "16 word \<Rightarrow> bool" where
  "uri_unreserved c \<longleftrightarrow>
     (0x41 \<le> c \<and> c \<le> 0x5A) \<or> (0x61 \<le> c \<and> c \<le> 0x7A) \<or> is_digit c \<or>
     c = 0x2D \<or> c = 0x5F \<or> c = 0x2E \<or> c = 0x21 \<or> c = 0x7E \<or> c = 0x2A \<or>
     c = 0x27 \<or> c = 0x28 \<or> c = 0x29"

definition HEX_digit :: "nat \<Rightarrow> 16 word" where
  "HEX_digit n = (if n < 10 then of_nat (48 + n) else of_nat (55 + n))"

definition percent :: "nat \<Rightarrow> jsstring" where
  "percent b = [0x25, HEX_digit (b div 16), HEX_digit (b mod 16)]"

definition utf8 :: "nat \<Rightarrow> nat list" where
  "utf8 cp =
     (if cp < 0x80 then [cp]
      else if cp < 0x800 then [0xC0 + cp div 64, 0x80 + cp mod 64]
      else if cp < 0x10000 then [0xE0 + cp div 4096, 0x80 + cp div 64 mod 64, 0x80 + cp mod 64]
      else [0xF0 + cp div 262144, 0x80 + cp div 4096 mod 64, 0x80 + cp div 64 mod 64,
            0x80 + cp mod 64])"

definition prepend :: "jsstring \<Rightarrow> error + jsstring \<Rightarrow> error + jsstring" where
  "prepend p r = (case r of Inl e \<Rightarrow> Inl e | Inr t \<Rightarrow> Inr (p @ t))"

fun encodeURIComponent :: "jsstring \<Rightarrow> error + jsstring" where
  "encodeURIComponent [] = Inr []"
| "encodeURIComponent (c # cs) =
     (if uri_unreserved c then prepend [c] (encodeURIComponent cs)
      else if is_low c then Inl URIError
      else if is_high c then
        (case cs of
           [] \<Rightarrow> Inl URIError
         | d # ds \<Rightarrow>
             if is_low d then
               prepend
                 (concat (map percent
                    (utf8 (0x10000 + (unat c - 0xD800) * 0x400 + (unat d - 0xDC00)))))
                 (encodeURIComponent ds)
             else Inl URIError)
      else prepend (concat (map percent (utf8 (unat c)))) (encodeURIComponent cs))"

subsection \<open>Rendering a recipe\<close>

text \<open>
  \<open>renderRecipe\<close> stores the recipe in \<open>currentRecipe\<close> first and then builds the markup,
  so a TypeError raised while the template is evaluated leaves \<open>currentRecipe\<close> set and
  the display as it was.
\<close>

text \<open>The template of \<open>renderRecipe\<close>, line by line, with its five substitutions.\<close>

definition recipe_markup :: "jsval \<Rightarrow> jsval \<Rightarrow> jsstring \<Rightarrow> jsstring \<Rightarrow> jsstring" where
  "recipe_markup strMeal strMealThumb ingredients instructions =
     [0x0A] @
     js ''    <div class=\"recipe-title-row\">'' @ [0x0A] @
     js ''      <h2>'' @ ToString strMeal @ js ''</h2>'' @ [0x0A] @
     js ''    </div>'' @ [0x0A] @
     js ''    <img src=\"'' @ ToString strMealThumb @ js ''\" alt=\"'' @ ToString strMeal @
       js ''\" />'' @ [0x0A] @
     js ''    <h3>Ingredients:</h3>'' @ [0x0A] @
     js ''    <ul>'' @ ingredients @ js ''</ul>'' @ [0x0A] @
     js ''    <h3>Instructions:</h3>'' @ [0x0A] @
     js ''    <p>'' @ instructions @ js ''</p>'' @ [0x0A] @
     js ''    <div class=\"save-row\">'' @ [0x0A] @
     js ''      <button id=\"save-recipe-btn\" class=\"main-btn\">Save Recipe</button>'' @ [0x0A] @
     js ''    </div>'' @ [0x0A] @
     js ''  ''"

definition renderRecipe :: "jsval \<Rightarrow> page \<Rightarrow> completion \<times> page" where
  "renderRecipe recipe st =
     (let st1 = st\<lparr>currentRecipe := recipe\<rparr> in
      case get_prop recipe (js ''strMeal'') of
        Inl e \<Rightarrow> (Throw e, st1)
      | Inr strMeal \<Rightarrow>
         (case get_prop recipe (js ''strMealThumb'') of
            Inl e \<Rightarrow> (Throw e, st1)
          | Inr strMealThumb \<Rightarrow>
             (case getIngredientsHtml recipe of
                Inl e \<Rightarrow> (Throw e, st1)
              | Inr ingredients \<Rightarrow>
                 (case get_prop recipe (js ''strInstructions'') of
                    Inl e \<Rightarrow> (Throw e, st1)
                  | Inr strInstructions \<Rightarrow>
                     (case replace_call replace_crlf strInstructions of
                        Inl e \<Rightarrow> (Throw e, st1)
                      | Inr instructions \<Rightarrow>
                         (Normal, st1\<lparr>recipeDisplay :=
                            recipe_markup strMeal strMealThumb ingredients instructions\<rparr>))))))"

subsection \<open>The saved recipes\<close>

definition getSavedRecipes :: "page \<Rightarrow> jsval" where
  "getSavedRecipes st =
     (case getItem (localStorage st) of
        Inl err \<Rightarrow> JArr []
      | Inr None \<Rightarrow> JArr []
      | Inr (Some raw) \<Rightarrow>
          if raw \<noteq> [] then (case JSON_parse raw of Inl err \<Rightarrow> JArr [] | Inr v \<Rightarrow> v)
          else JArr [])"

text \<open>
  \<open>setItem\<close> stores the text \<open>JSON.stringify\<close> returns, or the text \<open>undefined\<close> where it
  returns \<open>undefined\<close>.
\<close>

definition text_of :: "jsstring option \<Rightarrow> jsstring" where
  "text_of r = (case r of None \<Rightarrow> js ''undefined'' | Some t \<Rightarrow> t)"

definition setSavedRecipes :: "jsval \<Rightarrow> page \<Rightarrow> page" where
  "setSavedRecipes list st =
     (case setItem (localStorage st) (text_of (JSON_stringify list)) of
        Inl err \<Rightarrow> st
      | Inr sto \<Rightarrow> st\<lparr>localStorage := sto\<rparr>)"

definition renderSavedRecipesList :: "page \<Rightarrow> completion \<times> page" where
  "renderSavedRecipesList st =
     (let list = getSavedRecipes st in
      if savedContainer st = None \<or> savedList st = None then (Normal, st)
      else
        (case length_is_zero list of
           Inl e \<Rightarrow> (Throw e, st)
         | Inr True \<Rightarrow> (Normal, st\<lparr>savedContainer := Some (js ''none''), savedList := Some []\<rparr>)
         | Inr False \<Rightarrow>
            (let st1 = st\<lparr>savedContainer := Some [], savedList := Some []\<rparr> in
             case forEach_call list of
               Inl e \<Rightarrow> (Throw e, st1)
             | Inr items \<Rightarrow> (Normal, st1\<lparr>savedList := Some items\<rparr>))))"

definition saveRecipeName :: "jsval \<Rightarrow> page \<Rightarrow> completion \<times> page" where
  "saveRecipeName name st =
     (let list = getSavedRecipes st in
      case includes_call list name of
        Inl e \<Rightarrow> (Throw e, st)
      | Inr True \<Rightarrow> (Normal, st)
      | Inr False \<Rightarrow>
         (case push_call list name of
            Inl e \<Rightarrow> (Throw e, st)
          | Inr list' \<Rightarrow> renderSavedRecipesList (setSavedRecipes list' st)))"

definition deleteSavedRecipe :: "jsval \<Rightarrow> page \<Rightarrow> completion \<times> page" where
  "deleteSavedRecipe name st =
     (let list = getSavedRecipes st in
      case filter_call list name of
        Inl e \<Rightarrow> (Throw e, st)
      | Inr filtered \<Rightarrow> renderSavedRecipesList (setSavedRecipes filtered st))"

text \<open>
  The click listener that \<open>renderRecipe\<close> puts on the Save button it has just rendered.
\<close>

definition saveBtn_click :: "page \<Rightarrow> completion \<times> page" where
  "saveBtn_click st =
     (if \<not> truthy (currentRecipe st) \<or> \<not> truthy (opt_prop (currentRecipe st) (js ''strMeal''))
      then (Normal, st\<lparr>recipeDisplay :=
              recipeDisplay st @ js ''<p>Please load a recipe before saving.</p>''\<rparr>)
      else saveRecipeName (opt_prop (currentRecipe st) (js ''strMeal'')) st)"

definition loadSavedRecipesOnStart :: "page \<Rightarrow> completion \<times> page" where
  "loadSavedRecipesOnStart st = renderSavedRecipesList st"

subsection \<open>Fetching a recipe\<close>

definition not_found_message :: "jsval \<Rightarrow> jsstring" where
  "not_found_message name =
     js ''<p>Sorry, I couldn't find the recipe \"'' @ ToString name @ js ''\".</p>''"

definition load_failed_message :: jsstring where
  "load_failed_message =
     js ''<p>Sorry '' @ [0xE2, 0x20AC, 0x201D] @
     js '' could not load that recipe right now. Please try again later.</p>''"

text \<open>The body of the \<open>try\<close> of \<open>fetchAndDisplayRecipeByName\<close>.\<close>

definition fetchAndDisplayRecipeByName_try :: "network \<Rightarrow> jsval \<Rightarrow> page \<Rightarrow> completion \<times> page" where
  "fetchAndDisplayRecipeByName_try fetch name st =
     (case encodeURIComponent (ToString name) of
        Inl e \<Rightarrow> (Throw e, st)
      | Inr q \<Rightarrow>
         (let url = js ''https://www.themealdb.com/api/json/v1/1/search.php?s='' @ q;
              st1 = st\<lparr>requests := requests st @ [GET url]\<rparr> in
          case fetch (GET url) of
            None \<Rightarrow> (Throw TypeError, st1)
          | Some res \<Rightarrow>
              if \<not> ok res then
                (Throw (Error (js ''MealDB error: '' @ decimal (status res))), st1)
              else
                (case JSON_parse (body res) of
                   Inl e \<Rightarrow> (Throw e, st1)
                 | Inr data \<Rightarrow>
                    (let recipe = opt_prop (opt_prop data (js ''meals'')) (js ''0'') in
                     if \<not> truthy recipe then
                       (Normal, st1\<lparr>recipeDisplay := not_found_message name\<rparr>)
                     else renderRecipe recipe st1))))"

definition fetchAndDisplayRecipeByName :: "network \<Rightarrow> jsval \<Rightarrow> page \<Rightarrow> page" where
  "fetchAndDisplayRecipeByName fetch name st =
     (if \<not> truthy name then st
      else
        (case fetchAndDisplayRecipeByName_try fetch name
                (st\<lparr>recipeDisplay := js ''<p>Loading recipe...</p>''\<rparr>) of
           (Normal, st') \<Rightarrow> st'
         | (Throw err, st') \<Rightarrow> st'\<lparr>recipeDisplay := load_failed_message\<rparr>))"

definition random_failed_message :: jsstring where
  "random_failed_message = js ''<p>Sorry, couldn't load a recipe.</p>''"

text \<open>The body of the \<open>try\<close> of \<open>fetchAndDisplayRandomRecipe\<close>.\<close>

definition fetchAndDisplayRandomRecipe_try :: "network \<Rightarrow> page \<Rightarrow> completion \<times> page" where
  "fetchAndDisplayRandomRecipe_try fetch st =
     (let url = js ''https://www.themealdb.com/api/json/v1/1/random.php'';
          st1 = st\<lparr>requests := requests st @ [GET url]\<rparr> in
      case fetch (GET url) of
        None \<Rightarrow> (Throw TypeError, st1)
      | Some res \<Rightarrow>
         (case JSON_parse (body res) of
            Inl e \<Rightarrow> (Throw e, st1)
          | Inr data \<Rightarrow>
             (let recipe = opt_prop (opt_prop data (js ''meals'')) (js ''0'') in
              if \<not> truthy recipe then (Throw (Error (js ''No recipe returned from MealDB'')), st1)
              else renderRecipe recipe st1)))"

definition fetchAndDisplayRandomRecipe :: "network \<Rightarrow> page \<Rightarrow> page" where
  "fetchAndDisplayRandomRecipe fetch st =
     (case fetchAndDisplayRandomRecipe_try fetch (st\<lparr>recipeDisplay := js ''<p>Loading...</p>''\<rparr>) of
        (Normal, st') \<Rightarrow> st'
      | (Throw err, st') \<Rightarrow> st'\<lparr>recipeDisplay := random_failed_message\<rparr>)"

subsection \<open>The remix\<close>

definition userPrompt :: "jsval \<Rightarrow> jsval \<Rightarrow> jsstring" where
  "userPrompt recipeJson theme =
     js ''Here is a recipe in JSON format:'' @ [0x0A] @
     text_of (JSON_stringify_2 recipeJson) @ [0x0A, 0x0A] @
     js ''Remix theme: \"'' @ ToString theme @ js ''\"'' @ [0x0A, 0x0A] @
     js ''Please produce a short, fun, creative, and totally doable remix of the recipe. '' @
     js ''Highlight any changed ingredients (bullet list) and changed or new cooking steps. '' @
     js ''Keep it concise and actionable so someone can follow it in the kitchen. '' @
     js ''If nothing needs to change for the theme, say so and offer one optional twist. '' @
     js ''Only return the remixed recipe (no extraneous commentary).''"

definition remix_request :: "jsstring \<Rightarrow> jsstring \<Rightarrow> request" where
  "remix_request key prompt =
     POST (js ''https://api.openai.com/v1/chat/completions'')
       [(js ''Content-Type'', js ''application/json''),
        (js ''Authorization'', js ''Bearer '' @ key)]
       (text_of (JSON_stringify (JObj
          [(js ''model'', JStr (js ''gpt-4.1'')),
           (js ''messages'', JArr
              [JObj [(js ''role'', JStr (js ''system'')),
                     (js ''content'', JStr (js ''You are a playful, concise, and helpful recipe remixing assistant.''))],
               JObj [(js ''role'', JStr (js ''user'')), (js ''content'', JStr prompt)]]),
           (js ''temperature'', JNum (js ''0.8'')),
           (js ''max_tokens'', JNum (js ''500''))])))"

text \<open>
  \<open>remixRecipe\<close> returns the reply or the error it throws, and the page with the request
  added to those sent.
\<close>

definition remixRecipe :: "network \<Rightarrow> jsval \<Rightarrow> jsval \<Rightarrow> page \<Rightarrow> (error + jsval) \<times> page" where
  "remixRecipe fetch recipeJson theme st =
     (case remixRecipe_ingredients recipeJson of
        Inl e \<Rightarrow> (Inl e, st)
      | Inr ingredients \<Rightarrow>
         (let req = remix_request (OPENAI_API_KEY st) (userPrompt recipeJson theme);
              st1 = st\<lparr>requests := requests st @ [req]\<rparr> in
          case fetch req of
            None \<Rightarrow> (Inl TypeError, st1)
          | Some res \<Rightarrow>
              if \<not> ok res then
                (Inl (Error (js ''OpenAI API error: '' @ decimal (status res) @ js '' '' @
                             body res)), st1)
              else
                (case JSON_parse (body res) of
                   Inl e \<Rightarrow> (Inl e, st1)
                 | Inr data \<Rightarrow>
                    (let reply =
                       opt_prop (opt_prop (opt_prop (opt_prop data (js ''choices'')) (js ''0''))
                         (js ''message'')) (js ''content'') in
                     if \<not> truthy reply then (Inl (Error (js ''Empty reply from OpenAI'')), st1)
                     else (Inr reply, st1)))))"

definition remix_failed_message :: jsstring where
  "remix_failed_message =
     js ''<p>Sorry '' @ [0xE2, 0x20AC, 0x201D] @
     js '' I couldn't prepare a remix just now. Please try again in a moment.</p>''"

definition remix_loading_message :: jsstring where
  "remix_loading_message =
     js ''<p>Stirring the idea pot... your remix is being prepared '' @
     [0xF0, 0x178, 0xA5, 0x201E] @ js ''</p>''"

definition default_theme :: jsstring where
  "default_theme = js ''Make it interesting''"

text \<open>The theme \<open>remixThemeSelect?.value || "Make it interesting"\<close>.\<close>

definition selected_theme :: "page \<Rightarrow> jsstring" where
  "selected_theme st =
     (case remixThemeSelect st of
        None \<Rightarrow> default_theme
      | Some v \<Rightarrow> if v \<noteq> [] then v else default_theme)"

text \<open>The click listener of the remix button.\<close>

definition remixBtn_click :: "network \<Rightarrow> page \<Rightarrow> page" where
  "remixBtn_click fetch st =
     (if \<not> truthy (currentRecipe st) then
        st\<lparr>remixOutput := js ''<p>Please load a recipe first (click \"Surprise Me Again!\").</p>''\<rparr>
      else
        (let theme = selected_theme st;
             st1 = st\<lparr>remixOutput := remix_loading_message\<rparr> in
         case remixRecipe fetch (currentRecipe st1) (JStr theme) st1 of
           (Inl err, st2) \<Rightarrow> st2\<lparr>remixOutput := remix_failed_message\<rparr>
         | (Inr remixText, st2) \<Rightarrow>
            (case replace_call (\<lambda>s. replace_lf (replace_lflf s)) remixText of
               Inl err \<Rightarrow> st2\<lparr>remixOutput := remix_failed_message\<rparr>
             | Inr html \<Rightarrow>
                 st2\<lparr>remixOutput :=
                   js ''<div class=\"remix-result\">'' @ html @ js ''</div>''\<rparr>)))"

section \<open>The claims, in the specification's words\<close>

text \<open>
  The ingredient text of slot \<open>i\<close>, where the record holds one. A slot is blank when its
  ingredient text is absent, empty or whitespace only.
\<close>

definition ingredient_text :: "jsval \<Rightarrow> nat \<Rightarrow> jsstring option" where
  "ingredient_text recipe i =
     (case get_prop recipe (ingredient_key i) of Inr (JStr s) \<Rightarrow> Some s | _ \<Rightarrow> None)"

definition blank_slot :: "jsval \<Rightarrow> nat \<Rightarrow> bool" where
  "blank_slot recipe i =
     (case ingredient_text recipe i of None \<Rightarrow> True | Some s \<Rightarrow> list_all is_ws s)"

text \<open>
  A recipe record as the catalog service sends it: each of its twenty ingredient fields is
  a text, or is absent, \<open>null\<close> or another falsy value.
\<close>

definition text_or_absent :: "jsval \<Rightarrow> bool" where
  "text_or_absent v = (case v of JStr s \<Rightarrow> True | _ \<Rightarrow> \<not> truthy v)"

definition recipe_record :: "jsval \<Rightarrow> bool" where
  "recipe_record recipe =
     list_all (\<lambda>i. case get_prop recipe (ingredient_key i) of
                      Inl e \<Rightarrow> False
                    | Inr v \<Rightarrow> text_or_absent v) [1..<21]"

text \<open>The slots that are not blank, in increasing order, and what each contributes.\<close>

definition nonblank_slots :: "jsval \<Rightarrow> nat list" where
  "nonblank_slots recipe = filter (\<lambda>i. \<not> blank_slot recipe i) [1..<21]"

definition slot_li :: "jsval \<Rightarrow> nat \<Rightarrow> jsstring" where
  "slot_li recipe i =
     li_html (opt_prop recipe (measure_key i)) (opt_prop recipe (ingredient_key i))"

definition slot_line :: "jsval \<Rightarrow> nat \<Rightarrow> jsstring" where
  "slot_line recipe i =
     ingredient_line (opt_prop recipe (measure_key i)) (opt_prop recipe (ingredient_key i))"

text \<open>
  A name search that matches nothing: the container's list of meals is absent, \<open>null\<close> or
  empty.
\<close>

definition no_matching_recipe :: "jsval \<Rightarrow> bool" where
  "no_matching_recipe data =
     (case data of
        JObj ms \<Rightarrow>
          (case map_of ms (js ''meals'') of
             None \<Rightarrow> True
           | Some JNull \<Rightarrow> True
           | Some (JArr xs) \<Rightarrow> xs = []
           | Some v \<Rightarrow> False)
      | _ \<Rightarrow> False)"

text \<open>A completion whose list of choices is empty.\<close>

definition empty_choices :: "jsval \<Rightarrow> bool" where
  "empty_choices data =
     (case data of JObj ms \<Rightarrow> map_of ms (js ''choices'') = Some (JArr []) | _ \<Rightarrow> False)"

definition search_url :: "jsstring \<Rightarrow> jsstring" where
  "search_url q = js ''https://www.themealdb.com/api/json/v1/1/search.php?s='' @ q"

text \<open>The storage works for the value \<open>v\<close>: the slot can be read, and \<open>setItem\<close> stores the text of \<open>v\<close>.\<close>

definition store_accepts :: "page \<Rightarrow> jsval \<Rightarrow> bool" where
  "store_accepts st v \<longleftrightarrow>
     readable (localStorage st) \<and> writable (localStorage st) (text_of (JSON_stringify v))"

section \<open>Example data\<close>

definition working_storage :: "jsstring option \<Rightarrow> storage" where
  "working_storage content =
     \<lparr>stored = content, readable = True, writable = (\<lambda>text. True)\<rparr>"

definition example_page :: "jsval \<Rightarrow> storage \<Rightarrow> page" where
  "example_page recipe sto =
     \<lparr>currentRecipe = recipe, recipeDisplay = [], remixOutput = [],
      remixThemeSelect = Some (js ''Make it spicy''), savedContainer = Some [],
      savedList = Some [], localStorage = sto, OPENAI_API_KEY = js ''sk-test'',
      requests = []\<rparr>"


definition answering :: "nat \<Rightarrow> jsstring \<Rightarrow> network" where
  "answering code text = (\<lambda>req. Some \<lparr>status = code, body = text\<rparr>)"

text \<open>A record with a measured ingredient, an empty one, a blank one and a bare one.\<close>

definition salt_and_egg :: jsval where
  "salt_and_egg =
     JObj [(js ''strMeal'', JStr (js ''Omelette'')),
           (js ''strInstructions'', JStr (js ''Beat. Fry.'')),
           (js ''strIngredient1'', JStr (js ''Salt'')),
           (js ''strMeasure1'', JStr (js ''1 tsp'')),
           (js ''strIngredient2'', JStr []),
           (js ''strMeasure2'', JStr []),
           (js ''strIngredient3'', JStr (js '' '')),
           (js ''strIngredient4'', JNull),
           (js ''strIngredient5'', JStr (js ''Egg''))]"

definition soup :: jsval where
  "soup = JObj [(js ''strMeal'', JStr (js ''Soup'')), (js ''strInstructions'', JStr (js ''Boil.''))]"

definition soup_response :: jsstring where
  "soup_response = js ''{\"meals\":[{\"strMeal\":\"Soup\",\"strInstructions\":\"Boil.\"}]}''"

section \<open>Blank ingredient slots\<close>

lemma trim_empty_iff: "trim s = [] \<longleftrightarrow> list_all is_ws s"
proof
  assume "trim s = []"
  then have *: "\<forall>x\<in>set (dropWhile is_ws s). is_ws x"
    by (simp add: trim_def dropWhile_eq_Nil_conv)
  have "dropWhile is_ws s = []"
  proof (rule ccontr)
    assume ne: "dropWhile is_ws s \<noteq> []"
    then have "\<not> is_ws (hd (dropWhile is_ws s))" by (rule hd_dropWhile)
    moreover have "hd (dropWhile is_ws s) \<in> set (dropWhile is_ws s)" using ne by simp
    ultimately show False using * by blast
  qed
  then show "list_all is_ws s" by (simp add: list_all_iff)
next
  assume "list_all is_ws s"
  then show "trim s = []" by (auto simp: trim_def list_all_iff dest: set_dropWhileD)
qed

lemma recipe_record_slot:
  assumes "recipe_record r" "1 \<le> i" "i \<le> 20"
  obtains v where "get_prop r (ingredient_key i) = Inr v" "text_or_absent v"
proof -
  have "case get_prop r (ingredient_key i) of Inl e \<Rightarrow> False | Inr v \<Rightarrow> text_or_absent v"
    using assms by (simp add: recipe_record_def list_all_iff)
  then show ?thesis using that by (cases "get_prop r (ingredient_key i)") auto
qed

lemma recipe_record_measure:
  assumes "recipe_record r"
  obtains m where "get_prop r k = Inr m"
proof -
  obtain v where "get_prop r (ingredient_key 1) = Inr v"
    using recipe_record_slot[OF assms, of 1] by auto
  then have "r \<noteq> JUndefined" "r \<noteq> JNull" by auto
  then show ?thesis using that by (cases r) auto
qed

lemma ing_and_trim_slot:
  assumes "get_prop r (ingredient_key i) = Inr v" "text_or_absent v"
  shows "ing_and_trim v = Inr (\<not> blank_slot r i)"
  using assms
  by (cases v)
    (auto simp: ing_and_trim_def trim_empty_iff blank_slot_def ingredient_text_def
      text_or_absent_def)

lemma getIngredientsHtml_loop_closed:
  "recipe_record r \<Longrightarrow> 1 \<le> i \<Longrightarrow> i \<le> 21 \<Longrightarrow>
   getIngredientsHtml_loop r i html =
     Inr (html @ concat (map (slot_li r) (filter (\<lambda>i. \<not> blank_slot r i) [i..<21])))"
proof (induction r i html rule: getIngredientsHtml_loop.induct)
  case (1 recipe i html)
  note rr = "1.prems"(1)
  show ?case
  proof (cases "i \<le> 20")
    case False
    with 1 have "i = 21" by simp
    then show ?thesis by (simp add: getIngredientsHtml_loop.simps)
  next
    case True
    obtain v where v: "get_prop recipe (ingredient_key i) = Inr v" "text_or_absent v"
      using recipe_record_slot[OF rr, of i] 1 True by auto
    obtain m where m: "get_prop recipe (measure_key i) = Inr m"
      using recipe_record_measure[OF rr] by blast
    have c: "ing_and_trim v = Inr (\<not> blank_slot recipe i)"
      using ing_and_trim_slot[OF v] .
    have up: "[i..<21] = i # [Suc i..<21]" using True by (simp add: upt_conv_Cons)
    have li: "slot_li recipe i = li_html m v" by (simp add: slot_li_def opt_prop_def v m)
    have "getIngredientsHtml_loop recipe i html =
          getIngredientsHtml_loop recipe (i + 1)
            (if \<not> blank_slot recipe i then html @ li_html m v else html)"
      using True by (subst getIngredientsHtml_loop.simps) (simp add: v m c)
    also have "\<dots> = Inr ((if \<not> blank_slot recipe i then html @ li_html m v else html) @
        concat (map (slot_li recipe) (filter (\<lambda>i. \<not> blank_slot recipe i) [i + 1..<21])))"
      using "1.IH"[OF True v(1) m c rr] "1.prems" True by simp
    finally show ?thesis by (simp add: up li)
  qed
qed

lemma remixRecipe_ingredients_loop_closed:
  "recipe_record r \<Longrightarrow> 1 \<le> i \<Longrightarrow> i \<le> 21 \<Longrightarrow>
   remixRecipe_ingredients_loop r i ingredients =
     Inr (ingredients @ map (slot_line r) (filter (\<lambda>i. \<not> blank_slot r i) [i..<21]))"
proof (induction r i ingredients rule: remixRecipe_ingredients_loop.induct)
  case (1 recipeJson i ingredients)
  note rr = "1.prems"(1)
  show ?case
  proof (cases "i \<le> 20")
    case False
    with 1 have "i = 21" by simp
    then show ?thesis by (simp add: remixRecipe_ingredients_loop.simps)
  next
    case True
    obtain v where v: "get_prop recipeJson (ingredient_key i) = Inr v" "text_or_absent v"
      using recipe_record_slot[OF rr, of i] 1 True by auto
    obtain m where m: "get_prop recipeJson (measure_key i) = Inr m"
      using recipe_record_measure[OF rr] by blast
    have c: "ing_and_trim v = Inr (\<not> blank_slot recipeJson i)"
      using ing_and_trim_slot[OF v] .
    have up: "[i..<21] = i # [Suc i..<21]" using True by (simp add: upt_conv_Cons)
    have line: "slot_line recipeJson i = ingredient_line m v"
      by (simp add: slot_line_def opt_prop_def v m)
    have "remixRecipe_ingredients_loop recipeJson i ingredients =
          remixRecipe_ingredients_loop recipeJson (i + 1)
            (if \<not> blank_slot recipeJson i then ingredients @ [ingredient_line m v]
             else ingredients)"
      using True by (subst remixRecipe_ingredients_loop.simps) (simp add: v m c)
    also have "\<dots> =
        Inr ((if \<not> blank_slot recipeJson i then ingredients @ [ingredient_line m v]
              else ingredients) @
             map (slot_line recipeJson) (filter (\<lambda>i. \<not> blank_slot recipeJson i) [i + 1..<21]))"
      using "1.IH"[OF True v(1) m c rr] "1.prems" True by simp
    finally show ?thesis by (simp add: up line)
  qed
qed

text \<open>
  C1, as amended. For every recipe record, the rendered ingredient list and the array
  \<open>ingredients\<close> that \<open>remixRecipe\<close> builds hold exactly the slots from 1 to 20 that are not
  blank, in increasing order: a slot whose ingredient text is absent, empty or whitespace
  only is in neither.
\<close>

theorem blank_slots_excluded:
  assumes "recipe_record recipe"
  shows "getIngredientsHtml recipe = Inr (concat (map (slot_li recipe) (nonblank_slots recipe)))
       \<and> remixRecipe_ingredients recipe = Inr (map (slot_line recipe) (nonblank_slots recipe))
       \<and> sorted (nonblank_slots recipe) \<and> distinct (nonblank_slots recipe)
       \<and> set (nonblank_slots recipe) = {i. 1 \<le> i \<and> i \<le> 20 \<and> \<not> blank_slot recipe i}"
proof -
  have "getIngredientsHtml recipe = Inr (concat (map (slot_li recipe) (nonblank_slots recipe)))"
    using getIngredientsHtml_loop_closed[OF assms, of 1 "[]"]
    by (simp add: getIngredientsHtml_def nonblank_slots_def)
  moreover have
    "remixRecipe_ingredients recipe = Inr (map (slot_line recipe) (nonblank_slots recipe))"
    using remixRecipe_ingredients_loop_closed[OF assms, of 1 "[]"]
    by (simp add: remixRecipe_ingredients_def nonblank_slots_def)
  moreover have "sorted (nonblank_slots recipe)" "distinct (nonblank_slots recipe)"
    by (simp_all add: nonblank_slots_def sorted_wrt_filter)
  moreover have
    "set (nonblank_slots recipe) = {i. 1 \<le> i \<and> i \<le> 20 \<and> \<not> blank_slot recipe i}"
    by (auto simp: nonblank_slots_def)
  ultimately show ?thesis by simp
qed

lemma salt_and_egg_record: "recipe_record salt_and_egg"
  by code_simp

lemma salt_and_egg_slots: "nonblank_slots salt_and_egg = [1, 5]"
  by code_simp

theorem blank_slots_excluded_witness:
  "recipe_record salt_and_egg
   \<and> getIngredientsHtml salt_and_egg = Inr (js ''<li>1 tsp Salt</li><li>Egg</li>'')
   \<and> remixRecipe_ingredients salt_and_egg = Inr [js ''1 tsp Salt'', js ''Egg'']
   \<and> nonblank_slots salt_and_egg = [1, 5]"
proof -
  have li: "concat (map (slot_li salt_and_egg) [1, 5]) = js ''<li>1 tsp Salt</li><li>Egg</li>''"
    by code_simp
  have line: "map (slot_line salt_and_egg) [1, 5] = [js ''1 tsp Salt'', js ''Egg'']"
    by code_simp
  note t = blank_slots_excluded[OF salt_and_egg_record]
  from t have "getIngredientsHtml salt_and_egg =
      Inr (concat (map (slot_li salt_and_egg) [1, 5]))"
    unfolding salt_and_egg_slots by (rule conjunct1)
  then have 1: "getIngredientsHtml salt_and_egg = Inr (js ''<li>1 tsp Salt</li><li>Egg</li>'')"
    unfolding li .
  from t have "remixRecipe_ingredients salt_and_egg = Inr (map (slot_line salt_and_egg) [1, 5])"
    unfolding salt_and_egg_slots by blast
  then have 2: "remixRecipe_ingredients salt_and_egg = Inr [js ''1 tsp Salt'', js ''Egg'']"
    unfolding line .
  show ?thesis
    using 1 2 salt_and_egg_record salt_and_egg_slots by blast
qed

section \<open>Loading a saved recipe by name\<close>

text \<open>
  C6. With an empty name (any name that is falsy) \<open>fetchAndDisplayRecipeByName\<close> returns at
  once: the page it leaves is the page it found, so no request was sent and the display
  and \<open>currentRecipe\<close> are as before.
\<close>

theorem fetchByName_empty_is_noop:
  "\<not> truthy name \<Longrightarrow> fetchAndDisplayRecipeByName fetch name st = st"
  by (simp add: fetchAndDisplayRecipeByName_def)

theorem fetchByName_empty_is_noop_witness:
  "\<not> truthy (JStr [])
   \<and> fetchAndDisplayRecipeByName (answering 200 (js ''{\"meals\":null}'')) (JStr [])
       (example_page JNull (working_storage None)) = example_page JNull (working_storage None)"
  using fetchByName_empty_is_noop[of "JStr []" "answering 200 (js ''{\"meals\":null}'')"
      "example_page JNull (working_storage None)"]
  by simp

lemma index_key_0: "index_key (js ''0'') = Some 0"
  by code_simp

lemma key_0_not_length: "js ''0'' \<noteq> js ''length''"
  by (simp add: js_def)

lemma first_of_nothing:
  "opt_prop JUndefined k = JUndefined" "opt_prop JNull k = JUndefined"
  "opt_prop (JArr []) (js ''0'') = JUndefined"
  by (simp_all add: opt_prop_def index_key_0 key_0_not_length)

lemma no_matching_recipe_falsy:
  assumes "no_matching_recipe data"
  shows "\<not> truthy (opt_prop (opt_prop data (js ''meals'')) (js ''0''))"
proof -
  from assms obtain ms where data: "data = JObj ms"
    by (cases data) (simp_all add: no_matching_recipe_def)
  from assms have "opt_prop data (js ''meals'') \<in> {JUndefined, JNull, JArr []}"
    unfolding data
    by (auto simp: no_matching_recipe_def opt_prop_def split: option.splits jsval.splits)
  then show ?thesis by (auto simp: first_of_nothing)
qed




section \<open>A random recipe\<close>

lemma renderRecipe_sets_currentRecipe: "currentRecipe (snd (renderRecipe recipe st)) = recipe"
  by (simp add: renderRecipe_def Let_def split: sum.splits)

lemma fetchRandom_first_meal:
  assumes "fetch (GET (js ''https://www.themealdb.com/api/json/v1/1/random.php'')) = Some res"
    and "JSON_parse (body res) = Inr data"
    and "truthy (opt_prop (opt_prop data (js ''meals'')) (js ''0''))"
  shows "fetchAndDisplayRandomRecipe_try fetch st =
           renderRecipe (opt_prop (opt_prop data (js ''meals'')) (js ''0''))
             (st\<lparr>requests := requests st @
                [GET (js ''https://www.themealdb.com/api/json/v1/1/random.php'')]\<rparr>)"
  using assms by (simp add: fetchAndDisplayRandomRecipe_try_def Let_def)

lemma fetchByName_not_ok:
  assumes "truthy name"
    and "encodeURIComponent (ToString name) = Inr q"
    and "fetch (GET (search_url q)) = Some res"
    and "\<not> ok res"
  shows "fetchAndDisplayRecipeByName fetch name st =
           st\<lparr>recipeDisplay := load_failed_message,
              requests := requests st @ [GET (search_url q)]\<rparr>"
  using assms
  by (simp add: fetchAndDisplayRecipeByName_def fetchAndDisplayRecipeByName_try_def
      search_url_def Let_def)

lemma soup_response_parses: "JSON_parse soup_response = Inr (JObj [(js ''meals'', JArr [soup])])"
  by code_simp

lemma soup_first_meal:
  "opt_prop (opt_prop (JObj [(js ''meals'', JArr [soup])]) (js ''meals'')) (js ''0'') = soup"
  by (simp add: opt_prop_def index_key_0 key_0_not_length)

lemma renderRecipe_soup:
  "fst (renderRecipe soup st) = Normal"
  "hd (recipeDisplay (snd (renderRecipe soup st))) = 0x0A"
proof -
  have 1: "get_prop soup (js ''strMeal'') = Inr (JStr (js ''Soup''))" by code_simp
  have 2: "get_prop soup (js ''strMealThumb'') = Inr JUndefined" by code_simp
  have 3: "getIngredientsHtml soup = Inr []" by code_simp
  have 4: "get_prop soup (js ''strInstructions'') = Inr (JStr (js ''Boil.''))" by code_simp
  show "fst (renderRecipe soup st) = Normal"
    by (simp add: renderRecipe_def Let_def 1 2 3 4)
  show "hd (recipeDisplay (snd (renderRecipe soup st))) = 0x0A"
    by (simp add: renderRecipe_def recipe_markup_def Let_def 1 2 3 4)
qed

text \<open>
  C5. \<open>fetchAndDisplayRandomRecipe\<close> never looks at the status of the response: a response
  with status 500 whose body holds a recipe is rendered and becomes \<open>currentRecipe\<close>. The
  search by name, given the same response, shows its failure message and leaves
  \<open>currentRecipe\<close> alone.
\<close>

theorem fetchRandom_ignores_status:
  "\<not> ok \<lparr>status = 500, body = soup_response\<rparr>
   \<and> fst (fetchAndDisplayRandomRecipe_try (answering 500 soup_response)
        (example_page JNull (working_storage None))) = Normal
   \<and> currentRecipe (fetchAndDisplayRandomRecipe (answering 500 soup_response)
        (example_page JNull (working_storage None))) = soup
   \<and> recipeDisplay (fetchAndDisplayRandomRecipe (answering 500 soup_response)
        (example_page JNull (working_storage None))) \<noteq> random_failed_message
   \<and> currentRecipe (fetchAndDisplayRecipeByName (answering 500 soup_response) (JStr (js ''Soup''))
        (example_page JNull (working_storage None))) = JNull
   \<and> recipeDisplay (fetchAndDisplayRecipeByName (answering 500 soup_response) (JStr (js ''Soup''))
        (example_page JNull (working_storage None))) = load_failed_message"
proof -
  let ?st = "example_page JNull (working_storage None)"
  let ?res = "\<lparr>status = 500, body = soup_response\<rparr>"
  let ?fetch = "answering 500 soup_response"
  have 1: "\<not> ok ?res" by (simp add: ok_def)
  have f: "?fetch req = Some ?res" for req by (simp add: answering_def)
  have t: "truthy soup" by (simp add: soup_def)
  have tr: "fetchAndDisplayRandomRecipe_try ?fetch st = renderRecipe soup
      (st\<lparr>requests := requests st @
                [GET (js ''https://www.themealdb.com/api/json/v1/1/random.php'')]\<rparr>)" for st
    using fetchRandom_first_meal[of ?fetch ?res "JObj [(js ''meals'', JArr [soup])]" st]
    by (simp add: f soup_response_parses soup_first_meal t)
  have 2: "fst (fetchAndDisplayRandomRecipe_try ?fetch ?st) = Normal"
    by (simp add: tr renderRecipe_soup)
  have r: "fetchAndDisplayRandomRecipe ?fetch ?st = snd (renderRecipe soup
      (?st\<lparr>recipeDisplay := js ''<p>Loading...</p>'',
            requests := [GET (js ''https://www.themealdb.com/api/json/v1/1/random.php'')]\<rparr>))"
    (is "_ = snd (renderRecipe soup ?st1)")
  proof -
    have "requests ?st = []" by (simp add: example_page_def)
    then have "fetchAndDisplayRandomRecipe_try ?fetch (?st\<lparr>recipeDisplay := js ''<p>Loading...</p>''\<rparr>)
        = renderRecipe soup ?st1"
      by (simp add: tr)
    moreover have "fst (renderRecipe soup ?st1) = Normal" by (rule renderRecipe_soup)
    ultimately show ?thesis
      by (cases "renderRecipe soup ?st1") (auto simp: fetchAndDisplayRandomRecipe_def)
  qed
  have 3: "currentRecipe (fetchAndDisplayRandomRecipe ?fetch ?st) = soup"
    unfolding r by (rule renderRecipe_sets_currentRecipe)
  have "hd (recipeDisplay (fetchAndDisplayRandomRecipe ?fetch ?st)) = 0x0A"
    unfolding r by (rule renderRecipe_soup)
  moreover have "hd random_failed_message = 0x3C"
    by (simp add: random_failed_message_def js_def)
  ultimately have 4: "recipeDisplay (fetchAndDisplayRandomRecipe ?fetch ?st) \<noteq> random_failed_message"
    by auto
  have n: "truthy (JStr (js ''Soup''))" by (simp add: js_def)
  have q: "encodeURIComponent (ToString (JStr (js ''Soup''))) = Inr (js ''Soup'')" by code_simp
  note b = fetchByName_not_ok[of "JStr (js ''Soup'')" "js ''Soup''" ?fetch ?res ?st, OF n q f 1]
  have 5: "currentRecipe (fetchAndDisplayRecipeByName ?fetch (JStr (js ''Soup'')) ?st) = JNull"
    unfolding b by (simp add: example_page_def)
  have 6: "recipeDisplay (fetchAndDisplayRecipeByName ?fetch (JStr (js ''Soup'')) ?st) =
      load_failed_message"
    unfolding b by simp
  show ?thesis using 1 2 3 4 5 6 by blast
qed

text \<open>
  What the function does on the failures it does see: a rejected \<open>fetch\<close>, a body that is
  not JSON and a response without a recipe throw three different errors, and each ends
  in the same message, with \<open>currentRecipe\<close> untouched.
\<close>

lemma fetchRandom_error_kinds:
  "fetch (GET (js ''https://www.themealdb.com/api/json/v1/1/random.php'')) = None \<Longrightarrow>
     fst (fetchAndDisplayRandomRecipe_try fetch st) = Throw TypeError"
  "fetch (GET (js ''https://www.themealdb.com/api/json/v1/1/random.php'')) = Some res \<Longrightarrow>
     JSON_parse (body res) = Inl SyntaxError \<Longrightarrow>
     fst (fetchAndDisplayRandomRecipe_try fetch st) = Throw SyntaxError"
  "fetch (GET (js ''https://www.themealdb.com/api/json/v1/1/random.php'')) = Some res \<Longrightarrow>
     JSON_parse (body res) = Inr data \<Longrightarrow> no_matching_recipe data \<Longrightarrow>
     fst (fetchAndDisplayRandomRecipe_try fetch st) =
       Throw (Error (js ''No recipe returned from MealDB''))"
  by (simp_all add: fetchAndDisplayRandomRecipe_try_def Let_def no_matching_recipe_falsy)

lemma fetchRandom_failures:
  assumes "fetch (GET (js ''https://www.themealdb.com/api/json/v1/1/random.php'')) = None
         \<or> (\<exists>res. fetch (GET (js ''https://www.themealdb.com/api/json/v1/1/random.php'')) = Some res
              \<and> (JSON_parse (body res) = Inl SyntaxError
                  \<or> (\<exists>data. JSON_parse (body res) = Inr data \<and> no_matching_recipe data)))"
  shows "fetchAndDisplayRandomRecipe fetch st =
           st\<lparr>recipeDisplay := random_failed_message,
              requests := requests st @ [GET (js ''https://www.themealdb.com/api/json/v1/1/random.php'')]\<rparr>"
  using assms
  by (auto simp: fetchAndDisplayRandomRecipe_def fetchAndDisplayRandomRecipe_try_def Let_def
      dest: no_matching_recipe_falsy)

section \<open>The remix\<close>

lemma in_join_sublist: "x \<in> set xs \<Longrightarrow> sublist x (join sep xs)"
proof (induction sep xs rule: join.induct)
  case (1 sep)
  then show ?case by simp
next
  case (2 sep y)
  then show ?case by simp
next
  case (3 sep y z zs)
  show ?case
  proof (cases "x = y")
    case True
    then show ?thesis by (simp add: sublist_append_rightI)
  next
    case False
    with 3 have "sublist x (join sep (z # zs))" by simp
    then have "sublist x ((y @ sep) @ join sep (z # zs))"
      by (meson sublist_append)
    then show ?thesis by simp
  qed
qed

lemma member_in_stringify_members:
  assumes "(k, v) \<in> set ms" and "stringify gap ind v = Some t"
  shows "quote k @ js '':'' @ (if gap = [] then [] else js '' '') @ t
           \<in> set (stringify_members gap ind ms)"
  using assms
proof (induction ms)
  case Nil
  then show ?case by simp
next
  case (Cons m ms)
  obtain k' v' where m: "m = (k', v')" by (cases m)
  show ?case
    using Cons unfolding m by (cases "stringify gap ind v'") auto
qed

lemma member_in_stringify:
  assumes "(k, v) \<in> set ms" and "stringify gap (ind @ gap) v = Some t"
  obtains out where "stringify gap ind (JObj ms) = Some out"
    and "sublist (quote k @ js '':'' @ (if gap = [] then [] else js '' '') @ t) out"
proof -
  let ?x = "quote k @ js '':'' @ (if gap = [] then [] else js '' '') @ t"
  let ?parts = "stringify_members gap (ind @ gap) ms"
  have x: "?x \<in> set ?parts"
    using member_in_stringify_members[OF assms] .
  then have ne: "?parts \<noteq> []" by auto
  have j: "sublist ?x (join sep ?parts)" for sep
    using in_join_sublist[OF x] .
  show ?thesis
  proof (cases "gap = []")
    case True
    have "sublist ?x (js ''{'' @ join (js '','') ?parts @ js ''}'')"
      using j by (meson sublist_append)
    then show ?thesis using that ne True by simp
  next
    case False
    have "sublist ?x ((js ''{'' @ [0x0A] @ ind @ gap) @
        join (js '','' @ [0x0A] @ ind @ gap) ?parts @ ([0x0A] @ ind @ js ''}''))"
      using j by (meson sublist_append)
    then show ?thesis using that[of "js ''{'' @ [0x0A] @ ind @ gap @
        join (js '','' @ [0x0A] @ ind @ gap) ?parts @ [0x0A] @ ind @ js ''}''"] ne False
      by simp
  qed
qed

text \<open>
  Every text-valued property of the record, blank or not, stands in the prompt as
  \<open>"key": "value"\<close>.
\<close>

lemma sublist_behind: "sublist x z \<Longrightarrow> sublist x (y @ z)"
  by (simp add: sublist_append)

lemma serialization_in_prompt:
  "sublist (text_of (JSON_stringify_2 recipeJson)) (userPrompt recipeJson theme)"
  unfolding userPrompt_def
  by (intro sublist_behind sublist_append_rightI)

lemma member_in_prompt:
  assumes "(k, JStr s) \<in> set ms"
  shows "sublist (quote k @ js '': '' @ quote s) (userPrompt (JObj ms) theme)"
proof -
  have g: "js ''  '' \<noteq> []" by (simp add: js_def)
  obtain out where t: "stringify (js ''  '') [] (JObj ms) = Some out"
    and sub: "sublist (quote k @ js '':'' @ (if js ''  '' = [] then [] else js '' '') @ quote s) out"
    using member_in_stringify[OF assms, of "js ''  ''" "[]" "quote s"] by auto
  have "quote k @ js '':'' @ js '' '' @ quote s = quote k @ js '': '' @ quote s"
    by (simp add: js_def)
  with sub g have "sublist (quote k @ js '': '' @ quote s) out" by simp
  moreover have "sublist out (userPrompt (JObj ms) theme)"
    using serialization_in_prompt[of "JObj ms" theme]
    unfolding JSON_stringify_2_def t text_of_def by simp
  ultimately show ?thesis by (rule sublist_order.order_trans)
qed

lemma remixRecipe_requests:
  "requests (snd (remixRecipe fetch recipeJson theme st)) =
     (case remixRecipe_ingredients recipeJson of
        Inl e \<Rightarrow> requests st
      | Inr ingredients \<Rightarrow>
          requests st @ [remix_request (OPENAI_API_KEY st) (userPrompt recipeJson theme)])"
  by (simp add: remixRecipe_def Let_def split: sum.splits option.splits)


lemma salt_and_egg_lines: "remixRecipe_ingredients salt_and_egg = Inr [js ''1 tsp Salt'', js ''Egg'']"
  by code_simp

lemma blank_slot_quoted:
  "quote (js ''strIngredient2'') @ js '': '' @ quote [] = js ''\"strIngredient2\": \"\"''"
  by code_simp


text \<open>
  C1 as first stated fails: the second slot of this record is blank and is left out of
  the array \<open>ingredients\<close>, yet the request that \<open>remixRecipe\<close> sends carries it, because the
  prompt holds the whole record and not that array.
\<close>

theorem blank_slot_is_transmitted:
  "blank_slot salt_and_egg 2
   \<and> remixRecipe_ingredients salt_and_egg = Inr [js ''1 tsp Salt'', js ''Egg'']
   \<and> requests (snd (remixRecipe (answering 200 (js ''{\"choices\":[]}'')) salt_and_egg
        (JStr (js ''Make it spicy'')) (example_page salt_and_egg (working_storage None)))) =
       [remix_request (js ''sk-test'') (userPrompt salt_and_egg (JStr (js ''Make it spicy'')))]
   \<and> sublist (js ''\"strIngredient2\": \"\"'')
        (userPrompt salt_and_egg (JStr (js ''Make it spicy'')))"
proof -
  have 1: "blank_slot salt_and_egg 2" by code_simp
  have r: "requests (example_page salt_and_egg (working_storage None)) = []"
    and k: "OPENAI_API_KEY (example_page salt_and_egg (working_storage None)) = js ''sk-test''"
    by (simp_all add: example_page_def)
  have 3: "requests (snd (remixRecipe (answering 200 (js ''{\"choices\":[]}'')) salt_and_egg
        (JStr (js ''Make it spicy'')) (example_page salt_and_egg (working_storage None)))) =
       [remix_request (js ''sk-test'') (userPrompt salt_and_egg (JStr (js ''Make it spicy'')))]"
    by (simp add: remixRecipe_requests salt_and_egg_lines r k)
  have "sublist (quote (js ''strIngredient2'') @ js '': '' @ quote [])
        (userPrompt salt_and_egg (JStr (js ''Make it spicy'')))"
    unfolding salt_and_egg_def by (rule member_in_prompt) simp
  then have 4: "sublist (js ''\"strIngredient2\": \"\"'')
        (userPrompt salt_and_egg (JStr (js ''Make it spicy'')))"
    unfolding blank_slot_quoted .
  show ?thesis using 1 salt_and_egg_lines 3 4 by blast
qed

lemma empty_choices_reply:
  assumes "empty_choices data"
  shows "opt_prop (opt_prop (opt_prop (opt_prop data (js ''choices'')) (js ''0''))
           (js ''message'')) (js ''content'') = JUndefined"
proof -
  from assms obtain ms where data: "data = JObj ms"
    by (cases data) (simp_all add: empty_choices_def)
  from assms have "opt_prop data (js ''choices'') = JArr []"
    unfolding data by (simp add: empty_choices_def opt_prop_def)
  then show ?thesis by (simp add: first_of_nothing)
qed

text \<open>
  C8. When the remix service answers with a success whose list of choices is empty,
  \<open>remixRecipe\<close> throws: the error "Empty reply from OpenAI", or the TypeError of its own
  ingredient loop where the record makes that loop fail. The click listener then shows
  the remix-failure message, and \<open>currentRecipe\<close> is what it was.
\<close>

theorem remix_empty_choices:
  assumes "truthy (currentRecipe st)"
    and "fetch (remix_request (OPENAI_API_KEY st)
           (userPrompt (currentRecipe st) (JStr (selected_theme st)))) = Some res"
    and "ok res"
    and "JSON_parse (body res) = Inr data"
    and "empty_choices data"
  shows "fst (remixRecipe fetch (currentRecipe st) (JStr (selected_theme st)) st) =
           Inl (case remixRecipe_ingredients (currentRecipe st) of
                  Inl e \<Rightarrow> e
                | Inr ingredients \<Rightarrow> Error (js ''Empty reply from OpenAI''))
       \<and> remixOutput (remixBtn_click fetch st) = remix_failed_message
       \<and> currentRecipe (remixBtn_click fetch st) = currentRecipe st"
proof (cases "remixRecipe_ingredients (currentRecipe st)")
  case (Inl e)
  then show ?thesis
    using assms(1) by (simp add: remixBtn_click_def remixRecipe_def Let_def)
next
  case (Inr ingredients)
  then show ?thesis
    using assms empty_choices_reply[OF assms(5)]
    by (simp add: remixBtn_click_def remixRecipe_def Let_def selected_theme_def)
qed

theorem remix_empty_choices_witness:
  "truthy (currentRecipe (example_page soup (working_storage None)))
   \<and> ok \<lparr>status = 200, body = js ''{\"choices\":[]}''\<rparr>
   \<and> JSON_parse (js ''{\"choices\":[]}'') = Inr (JObj [(js ''choices'', JArr [])])
   \<and> empty_choices (JObj [(js ''choices'', JArr [])])
   \<and> fst (remixRecipe (answering 200 (js ''{\"choices\":[]}'')) soup (JStr (js ''Make it spicy''))
        (example_page soup (working_storage None))) = Inl (Error (js ''Empty reply from OpenAI''))
   \<and> remixOutput (remixBtn_click (answering 200 (js ''{\"choices\":[]}''))
        (example_page soup (working_storage None))) = remix_failed_message
   \<and> currentRecipe (remixBtn_click (answering 200 (js ''{\"choices\":[]}''))
        (example_page soup (working_storage None))) = soup"
proof -
  let ?st = "example_page soup (working_storage None)"
  let ?res = "\<lparr>status = 200, body = js ''{\"choices\":[]}''\<rparr>"
  have c: "currentRecipe ?st = soup" by (simp add: example_page_def)
  have th: "selected_theme ?st = js ''Make it spicy''"
    by (simp add: example_page_def selected_theme_def js_def)
  have 1: "truthy (currentRecipe ?st)" unfolding c by (simp add: soup_def)
  have 2: "answering 200 (js ''{\"choices\":[]}'') (remix_request (OPENAI_API_KEY ?st)
           (userPrompt (currentRecipe ?st) (JStr (selected_theme ?st)))) = Some ?res"
    by (simp add: answering_def)
  have 3: "ok ?res" by (simp add: ok_def)
  have 4: "JSON_parse (body ?res) = Inr (JObj [(js ''choices'', JArr [])])" by code_simp
  have 5: "empty_choices (JObj [(js ''choices'', JArr [])])" by code_simp
  have ing: "remixRecipe_ingredients soup = Inr []" by code_simp
  note t = remix_empty_choices[of ?st "answering 200 (js ''{\"choices\":[]}'')" ?res
      "JObj [(js ''choices'', JArr [])]", OF 1 2 3 4 5]
  from 4 have p4: "JSON_parse (js ''{\"choices\":[]}'') = Inr (JObj [(js ''choices'', JArr [])])"
    by simp
  show ?thesis using 1 3 p4 5 t by (simp add: c th ing)
qed

section \<open>\<open>JSON.parse\<close> reads back what \<open>JSON.stringify\<close> writes\<close>

text \<open>
  The list that the program stores is a list of names. Its text is read back by
  \<open>JSON.parse\<close> as the same list, whatever code units the names hold.
\<close>

lemma hex_sum:
  "((x div 4096 * 16 + x div 256 mod 16) * 16 + x div 16 mod 16) * 16 + x mod 16 = (x::nat)"
proof -
  define y where "y = x div 16"
  define z where "z = y div 16"
  have a: "x div 256 = z" using div_mult2_eq[of x 16 16] by (simp add: y_def z_def)
  have b: "x div 4096 = z div 16" using div_mult2_eq[of x 256 16] by (simp add: a)
  have 1: "z div 16 * 16 + z mod 16 = z" by simp
  have 2: "z * 16 + y mod 16 = y" by (simp add: z_def)
  have 3: "y * 16 + x mod 16 = x" by (simp add: y_def)
  have "((z div 16 * 16 + z mod 16) * 16 + y mod 16) * 16 + x mod 16 = x"
    by (simp only: 1 2 3)
  then show ?thesis by (simp only: a b flip: y_def)
qed

lemma hex_digits_all: "list_all (\<lambda>n. hex_val (hex_digit n) = Some n) [0..<16]"
  by code_simp

lemma hex_val_hex_digit: "n < 16 \<Longrightarrow> hex_val (hex_digit n) = Some n"
  using hex_digits_all by (simp add: list_all_iff)

lemma high_plain: "is_high c \<Longrightarrow> \<not> c < 0x20 \<and> c \<noteq> 0x22 \<and> c \<noteq> 0x5C"
  by (auto simp: is_high_def word_le_nat_alt word_less_nat_alt)

lemma low_plain: "is_low c \<Longrightarrow> \<not> c < 0x20 \<and> c \<noteq> 0x22 \<and> c \<noteq> 0x5C"
  by (auto simp: is_low_def word_le_nat_alt word_less_nat_alt)

lemma step_plain:
  "c \<noteq> 0x22 \<Longrightarrow> c \<noteq> 0x5C \<Longrightarrow> \<not> c < 0x20 \<Longrightarrow>
   step (MStr key acc, st) c = (MStr key (acc @ [c]), st)"
  by simp

lemma run_unicode_escape:
  "foldl step (MStr key acc, st) (unicode_escape c) = (MStr key (acc @ [c]), st)"
proof -
  have lt: "unat c < 65536" using unsigned_less[of c, where 'a = nat] by simp
  then have d1: "unat c div 4096 < 16" by simp
  have v: "hex_val (hex_digit (unat c div 4096)) = Some (unat c div 4096)"
    "hex_val (hex_digit (unat c div 256 mod 16)) = Some (unat c div 256 mod 16)"
    "hex_val (hex_digit (unat c div 16 mod 16)) = Some (unat c div 16 mod 16)"
    "hex_val (hex_digit (unat c mod 16)) = Some (unat c mod 16)"
    using d1 by (simp_all add: hex_val_hex_digit)
  have "of_nat (((unat c div 4096 * 16 + unat c div 256 mod 16) * 16 + unat c div 16 mod 16) * 16
          + unat c mod 16) = c"
    by (simp only: hex_sum) simp
  then show ?thesis
    by (simp add: unicode_escape_def v)
qed

lemma run_quote_body:
  "foldl step (MStr key acc, st) (quote_body s) = (MStr key (acc @ s), st)"
proof (induction "length s" arbitrary: s acc rule: less_induct)
  case less
  show ?case
  proof (cases s)
    case Nil
    then show ?thesis by simp
  next
    case (Cons c cs)
    have ih: "foldl step (MStr key acc', st) (quote_body cs) = (MStr key (acc' @ cs), st)"
      for acc'
      using less[of cs acc'] Cons by simp
    show ?thesis
    proof (cases "c = 0x08 \<or> c = 0x09 \<or> c = 0x0A \<or> c = 0x0C \<or> c = 0x0D \<or> c = 0x22 \<or> c = 0x5C")
      case True
      then show ?thesis unfolding Cons by (elim disjE) (simp_all add: ih)
    next
      case False
      then have ns: "c \<noteq> 0x08" "c \<noteq> 0x09" "c \<noteq> 0x0A" "c \<noteq> 0x0C" "c \<noteq> 0x0D" "c \<noteq> 0x22"
        "c \<noteq> 0x5C" by simp_all
      have escaped: ?thesis if "quote_body s = unicode_escape c @ quote_body cs"
        using that by (simp add: run_unicode_escape ih Cons)
      show ?thesis
      proof (cases "c < 0x20")
        case True
        then show ?thesis using ns by (intro escaped) (simp add: Cons)
      next
        case c20: False
        show ?thesis
        proof (cases "is_high c")
          case high: True
          show ?thesis
          proof (cases cs)
            case Nil
            then have "quote_body s = unicode_escape c"
              using ns c20 high by (simp add: Cons)
            then show ?thesis by (simp add: run_unicode_escape Cons Nil)
          next
            case (Cons d ds)
            note cs = this
            show ?thesis
            proof (cases "is_low d")
              case True
              have "foldl step (MStr key acc', st) (quote_body ds) = (MStr key (acc' @ ds), st)"
                for acc'
                using less[of ds acc'] \<open>s = c # cs\<close> cs by simp
              moreover have "quote_body s = c # d # quote_body ds"
                using ns c20 high True by (simp add: \<open>s = c # cs\<close> cs)
              ultimately show ?thesis
                using high_plain[OF high] low_plain[OF True]
                by (simp add: \<open>s = c # cs\<close> cs step_plain)
            next
              case False
              then show ?thesis
                using ns c20 high by (intro escaped) (simp add: \<open>s = c # cs\<close> cs)
            qed
          qed
        next
          case nh: False
          show ?thesis
          proof (cases "is_low c")
            case True
            then show ?thesis using ns c20 nh by (intro escaped) (simp add: Cons)
          next
            case False
            then have "quote_body s = c # quote_body cs"
              using ns c20 nh by (simp add: Cons)
            then show ?thesis using ns c20 by (simp add: ih Cons)
          qed
        qed
      qed
    qed
  qed
qed

lemma value_step_quote: "value_step fresh 0x22 st = (MStr False [], st)"
  by (simp add: value_step_def is_json_ws_def)

lemma run_quote:
  "foldl step (MValue, st) (quote s) = complete (JStr s) st"
  "foldl step (MArrStart, st) (quote s) = complete (JStr s) st"
  by (simp_all add: quote_def value_step_quote run_quote_body)

lemma join_Cons: "ys \<noteq> [] \<Longrightarrow> join sep (x # ys) = x @ sep @ join sep ys"
  by (cases ys) simp_all

lemma run_names:
  "names \<noteq> [] \<Longrightarrow> m = MValue \<or> m = MArrStart \<Longrightarrow>
   foldl step (m, FArr xs # st) (join (js '','') (map quote names)) =
     (MAfter, FArr (xs @ map JStr names) # st)"
proof (induction names arbitrary: xs m rule: list_nonempty_induct)
  case (single n)
  then show ?case by (auto simp: run_quote)
next
  case (cons n names)
  have c: "js '','' = [0x2C]" by (simp add: js_def)
  have "foldl step (m, FArr xs # st) (quote n) = (MAfter, FArr (xs @ [JStr n]) # st)"
    using cons.prems by (auto simp: run_quote)
  moreover have "step (MAfter, FArr (xs @ [JStr n]) # st) 0x2C = (MValue, FArr (xs @ [JStr n]) # st)"
    by (simp add: after_step_def is_json_ws_def)
  moreover have "foldl step (MValue, FArr (xs @ [JStr n]) # st) (join (js '','') (map quote names))
      = (MAfter, FArr ((xs @ [JStr n]) @ map JStr names) # st)"
    using cons.IH by simp
  ultimately show ?case
    using cons.hyps by (simp add: join_Cons c)
qed

lemma stringify_elems_names: "stringify_elems gap ind (map JStr names) = map quote names"
  by (induction names) simp_all

lemma JSON_stringify_names:
  "JSON_stringify (JArr (map JStr names)) =
     Some (if names = [] then js ''[]''
           else js ''['' @ join (js '','') (map quote names) @ js '']'')"
  by (simp add: JSON_stringify_def stringify_elems_names)

lemma JSON_roundtrip_names:
  "JSON_parse (text_of (JSON_stringify (JArr (map JStr names)))) = Inr (JArr (map JStr names))"
proof (cases "names = []")
  case True
  have "JSON_parse (js ''[]'') = Inr (JArr [])" by code_simp
  moreover have "JSON_stringify (JArr []) = Some (js ''[]'')" by (simp add: JSON_stringify_def)
  ultimately show ?thesis using True by (simp add: text_of_def)
next
  case False
  have b: "js ''['' = [0x5B]" "js '']'' = [0x5D]" by (simp_all add: js_def)
  have "foldl step (MValue, []) ([0x5B] @ join (js '','') (map quote names) @ [0x5D]) =
      (MDone (JArr (map JStr names)), [])"
    using run_names[OF False, of MArrStart "[]" "[]"]
    by (simp add: value_step_def is_json_ws_def after_step_def)
  then show ?thesis using False
    by (simp add: JSON_stringify_names text_of_def JSON_parse_def b)
qed

lemma JSON_stringify_names_truthy: "text_of (JSON_stringify (JArr (map JStr names))) \<noteq> []"
  by (simp add: JSON_stringify_names text_of_def js_def)

section \<open>The saved recipes\<close>




text \<open>
  C9. Where the page has the saved-recipes container and list: for an empty saved list
  the container is hidden (\<open>display\<close> is \<open>none\<close>) and the list has no entry; for any other
  saved list the container is shown (\<open>display\<close> is reset) and the list holds one entry for
  each saved name, in the order of the saved list, with the name as its text.
\<close>

theorem saved_list_region:
  assumes "savedContainer st \<noteq> None"
    and "savedList st \<noteq> None"
    and "getSavedRecipes st = JArr names"
  shows "renderSavedRecipesList st =
           (Normal, st\<lparr>savedContainer := Some (if names = [] then js ''none'' else []),
                       savedList := Some (map saved_entry names)\<rparr>)
       \<and> map item_name (map saved_entry names) = names
       \<and> map item_text (map saved_entry names) = map textContent names
       \<and> textContent (JStr name) = name"
  using assms
  by (auto simp: renderSavedRecipesList_def Let_def saved_entry_def comp_def textContent_def)

theorem saved_list_region_witness:
  "savedContainer (example_page JNull (working_storage (Some (js ''[\"Lasagne\",\"Soup\"]'')))) \<noteq> None
   \<and> savedList (example_page JNull (working_storage (Some (js ''[\"Lasagne\",\"Soup\"]'')))) \<noteq> None
   \<and> getSavedRecipes (example_page JNull (working_storage (Some (js ''[\"Lasagne\",\"Soup\"]'')))) =
       JArr [JStr (js ''Lasagne''), JStr (js ''Soup'')]
   \<and> renderSavedRecipesList
        (example_page JNull (working_storage (Some (js ''[\"Lasagne\",\"Soup\"]'')))) =
       (Normal, (example_page JNull (working_storage (Some (js ''[\"Lasagne\",\"Soup\"]''))))
          \<lparr>savedContainer := Some [],
           savedList := Some [SavedItem (js ''Lasagne'') (JStr (js ''Lasagne'')),
                              SavedItem (js ''Soup'') (JStr (js ''Soup''))]\<rparr>)
   \<and> getSavedRecipes (example_page JNull (working_storage None)) = JArr []
   \<and> renderSavedRecipesList (example_page JNull (working_storage None)) =
       (Normal, (example_page JNull (working_storage None))
          \<lparr>savedContainer := Some (js ''none''), savedList := Some []\<rparr>)"
proof -
  let ?a = "example_page JNull (working_storage (Some (js ''[\"Lasagne\",\"Soup\"]'')))"
  let ?b = "example_page JNull (working_storage None)"
  have a: "savedContainer ?a \<noteq> None" "savedList ?a \<noteq> None"
    and b: "savedContainer ?b \<noteq> None" "savedList ?b \<noteq> None"
    by (simp_all add: example_page_def)
  have la: "getSavedRecipes ?a = JArr [JStr (js ''Lasagne''), JStr (js ''Soup'')]" by code_simp
  have lb: "getSavedRecipes ?b = JArr []" by code_simp
  have ne: "js ''Lasagne'' \<noteq> []" by (simp add: js_def)
  note ta = saved_list_region[OF a la]
  note tb = saved_list_region[OF b lb]
  show ?thesis
    using a la lb ta tb by (simp add: saved_entry_def textContent_def)
qed

lemma getSavedRecipes_storage:
  "localStorage st' = localStorage st \<Longrightarrow> getSavedRecipes st' = getSavedRecipes st"
  by (simp add: getSavedRecipes_def)

lemma renderSavedRecipesList_storage:
  "localStorage (snd (renderSavedRecipesList st)) = localStorage st"
  by (simp add: renderSavedRecipesList_def Let_def split: sum.splits bool.splits)

lemma renderSavedRecipesList_list:
  assumes "getSavedRecipes st = JArr xs"
  shows "renderSavedRecipesList st =
     (Normal, if savedContainer st = None \<or> savedList st = None then st
              else st\<lparr>savedContainer := Some (if xs = [] then js ''none'' else []),
                      savedList := Some (map saved_entry xs)\<rparr>)"
  using assms by (auto simp: renderSavedRecipesList_def Let_def)

lemma renderSavedRecipesList_again:
  assumes "getSavedRecipes st = JArr xs"
  shows "renderSavedRecipesList (snd (renderSavedRecipesList st)) = renderSavedRecipesList st"
proof -
  let ?st' = "snd (renderSavedRecipesList st)"
  have "getSavedRecipes ?st' = JArr xs"
    using getSavedRecipes_storage[OF renderSavedRecipesList_storage] assms by simp
  from renderSavedRecipesList_list[OF this] renderSavedRecipesList_list[OF assms]
  show ?thesis by auto
qed

lemma getSavedRecipes_after_set:
  "getSavedRecipes (setSavedRecipes (JArr (map JStr ns)) st) =
     (if writable (localStorage st) (text_of (JSON_stringify (JArr (map JStr ns))))
      then (if readable (localStorage st) then JArr (map JStr ns) else JArr [])
      else getSavedRecipes st)"
  by (simp add: setSavedRecipes_def setItem_def getSavedRecipes_def getItem_def
      JSON_roundtrip_names JSON_stringify_names_truthy)

lemma includes_names:
  "list_ex (\<lambda>x. strict_equal x (JStr name)) (map JStr names) = (name \<in> set names)"
  by (auto simp: list_ex_iff)

lemma filter_names:
  "filter (\<lambda>n. \<not> strict_equal n (JStr name)) (map JStr names) =
     map JStr (removeAll name names)"
  by (induction names) auto

lemma saveRecipeName_present:
  assumes "getSavedRecipes st = JArr (map JStr names)" and "name \<in> set names"
  shows "saveRecipeName (JStr name) st = (Normal, st)"
  using assms by (simp add: saveRecipeName_def includes_names)

lemma saveRecipeName_absent:
  assumes "getSavedRecipes st = JArr (map JStr names)" and "name \<notin> set names"
  shows "saveRecipeName (JStr name) st =
           renderSavedRecipesList (setSavedRecipes (JArr (map JStr (names @ [name]))) st)"
  using assms by (simp add: saveRecipeName_def includes_names)

lemma setSavedRecipes_again:
  "setSavedRecipes v (setSavedRecipes v st) = setSavedRecipes v st"
  by (simp add: setSavedRecipes_def setItem_def)

lemma saveRecipeName_twice:
  assumes "getSavedRecipes st = JArr (map JStr names)"
  shows "saveRecipeName (JStr name) (snd (saveRecipeName (JStr name) st)) =
         saveRecipeName (JStr name) st"
proof (cases "name \<in> set names")
  case True
  then show ?thesis using assms by (simp add: saveRecipeName_present)
next
  case False
  let ?v = "JArr (map JStr (names @ [name]))"
  let ?st1 = "setSavedRecipes ?v st"
  let ?st2 = "snd (renderSavedRecipesList ?st1)"
  have first: "saveRecipeName (JStr name) st = renderSavedRecipesList ?st1"
    using saveRecipeName_absent[OF assms False] .
  have sto2: "localStorage ?st2 = localStorage ?st1"
    by (rule renderSavedRecipesList_storage)
  have l2: "getSavedRecipes ?st2 = getSavedRecipes ?st1"
    using getSavedRecipes_storage[OF sto2] .
  show ?thesis
  proof (cases "writable (localStorage st) (text_of (JSON_stringify ?v)) \<and> readable (localStorage st)")
    case True
    then have l1: "getSavedRecipes ?st1 = JArr (map JStr (names @ [name]))"
      using getSavedRecipes_after_set[of "names @ [name]" st] by simp
    have "saveRecipeName (JStr name) ?st2 = (Normal, ?st2)"
      using saveRecipeName_present[of ?st2 "names @ [name]" name] l1 l2 by simp
    moreover have "fst (renderSavedRecipesList ?st1) = Normal"
      using renderSavedRecipesList_list[OF l1] by simp
    ultimately show ?thesis unfolding first by (simp add: prod_eq_iff)
  next
    case False
    then have l1: "getSavedRecipes ?st1 = JArr (map JStr names)"
      using getSavedRecipes_after_set[of "names @ [name]" st] assms
      by (auto simp: getSavedRecipes_def getItem_def)
    have "saveRecipeName (JStr name) ?st2 = renderSavedRecipesList (setSavedRecipes ?v ?st2)"
      using saveRecipeName_absent[of ?st2 names name] l1 l2 \<open>name \<notin> set names\<close> by simp
    moreover have "setSavedRecipes ?v ?st2 = ?st2"
    proof -
      have "localStorage (setSavedRecipes ?v ?st2) = localStorage ?st2"
        using sto2 setSavedRecipes_again[of ?v st]
        by (auto simp: setSavedRecipes_def setItem_def split: if_splits)
      then show ?thesis
        by (auto simp: setSavedRecipes_def setItem_def split: if_splits)
    qed
    moreover have "renderSavedRecipesList ?st2 = renderSavedRecipesList ?st1"
      using renderSavedRecipesList_again[OF l1] .
    ultimately show ?thesis unfolding first by simp
  qed
qed

text \<open>
  Where the storage refuses the write, \<open>setSavedRecipes\<close> swallows the error and the list
  stays as it was.
\<close>

lemma saveRecipeName_refused:
  assumes "getSavedRecipes st = JArr (map JStr names)"
    and "name \<notin> set names"
    and "\<not> writable (localStorage st)
           (text_of (JSON_stringify (JArr (map JStr (names @ [name])))))"
  shows "getSavedRecipes (snd (saveRecipeName (JStr name) st)) = JArr (map JStr names)"
proof -
  have "getSavedRecipes (snd (saveRecipeName (JStr name) st)) =
      getSavedRecipes (setSavedRecipes (JArr (map JStr (names @ [name]))) st)"
    unfolding saveRecipeName_absent[OF assms(1,2)]
    using getSavedRecipes_storage[OF renderSavedRecipesList_storage] .
  then show ?thesis
    unfolding getSavedRecipes_after_set using assms(1,3) by simp
qed

text \<open>
  C2. With a stored list of names: saving a name that is in the list changes nothing;
  saving the same name twice leaves the page exactly as saving it once; and starting
  from the empty list, with a storage that works, two saves of a name leave the list
  that holds the name once.
\<close>

theorem saveRecipeName_idempotent:
  assumes "getSavedRecipes st = JArr (map JStr names)"
  shows "(name \<in> set names \<longrightarrow> saveRecipeName (JStr name) st = (Normal, st))
       \<and> saveRecipeName (JStr name) (snd (saveRecipeName (JStr name) st)) =
           saveRecipeName (JStr name) st
       \<and> (names = [] \<and> store_accepts st (JArr [JStr name]) \<longrightarrow>
            getSavedRecipes (snd (saveRecipeName (JStr name) (snd (saveRecipeName (JStr name) st))))
              = JArr [JStr name])"
proof -
  have 1: "name \<in> set names \<longrightarrow> saveRecipeName (JStr name) st = (Normal, st)"
    using saveRecipeName_present[OF assms] by simp
  have 2: "saveRecipeName (JStr name) (snd (saveRecipeName (JStr name) st)) =
           saveRecipeName (JStr name) st"
    using saveRecipeName_twice[OF assms] .
  have 3: "getSavedRecipes (snd (saveRecipeName (JStr name) (snd (saveRecipeName (JStr name) st))))
              = JArr [JStr name]"
    if "names = []" and ok: "store_accepts st (JArr [JStr name])"
  proof -
    have "saveRecipeName (JStr name) st =
        renderSavedRecipesList (setSavedRecipes (JArr (map JStr ([] @ [name]))) st)"
      using saveRecipeName_absent[of st "[]" name] assms that by simp
    then have "getSavedRecipes (snd (saveRecipeName (JStr name) st)) =
        getSavedRecipes (setSavedRecipes (JArr (map JStr [name])) st)"
      using getSavedRecipes_storage[OF renderSavedRecipesList_storage] by simp
    also have "\<dots> = JArr (map JStr [name])"
      using ok unfolding getSavedRecipes_after_set by (simp add: store_accepts_def)
    finally show ?thesis unfolding 2 by simp
  qed
  show ?thesis using 1 2 3 by blast
qed

theorem saveRecipeName_idempotent_witness:
  "getSavedRecipes (example_page soup (working_storage None)) = JArr []
   \<and> store_accepts (example_page soup (working_storage None)) (JArr [JStr (js ''Lasagne'')])
   \<and> getSavedRecipes (snd (saveRecipeName (JStr (js ''Lasagne''))
        (snd (saveRecipeName (JStr (js ''Lasagne'')) (example_page soup (working_storage None))))))
       = JArr [JStr (js ''Lasagne'')]
   \<and> getSavedRecipes (example_page soup (working_storage (Some (js ''[\"Soup\",\"Lasagne\"]'')))) =
       JArr [JStr (js ''Soup''), JStr (js ''Lasagne'')]
   \<and> saveRecipeName (JStr (js ''Lasagne''))
        (example_page soup (working_storage (Some (js ''[\"Soup\",\"Lasagne\"]'')))) =
       (Normal, example_page soup (working_storage (Some (js ''[\"Soup\",\"Lasagne\"]''))))"
proof -
  let ?a = "example_page soup (working_storage None)"
  let ?b = "example_page soup (working_storage (Some (js ''[\"Soup\",\"Lasagne\"]'')))"
  have la: "getSavedRecipes ?a = JArr []" by code_simp
  have lb: "getSavedRecipes ?b = JArr [JStr (js ''Soup''), JStr (js ''Lasagne'')]" by code_simp
  have acc: "store_accepts ?a (JArr [JStr (js ''Lasagne'')])"
    by (simp add: store_accepts_def example_page_def working_storage_def)
  have ha: "getSavedRecipes ?a = JArr (map JStr [])" using la by simp
  have hb: "getSavedRecipes ?b = JArr (map JStr [js ''Soup'', js ''Lasagne''])" using lb by simp
  note ta = saveRecipeName_idempotent[OF ha, of "js ''Lasagne''"]
  note tb = saveRecipeName_idempotent[OF hb, of "js ''Lasagne''"]
  have 1: "getSavedRecipes (snd (saveRecipeName (JStr (js ''Lasagne''))
        (snd (saveRecipeName (JStr (js ''Lasagne'')) ?a)))) = JArr [JStr (js ''Lasagne'')]"
    using ta acc by blast
  have 2: "saveRecipeName (JStr (js ''Lasagne'')) ?b = (Normal, ?b)"
    using tb by simp
  show ?thesis using la lb acc 1 2 by blast
qed

text \<open>
  C3. With a stored list of names, \<open>deleteSavedRecipe\<close> returns normally and hands the list
  without the entries equal to the name to the storage. Where the storage takes the
  write, that is the text of the slot afterwards, and where the slot can also be read,
  the list loaded afterwards is the stored list without those entries. For a name that
  is not in the list, the list loaded afterwards is the list loaded before.
\<close>

theorem deleteSavedRecipe_removes:
  assumes "getSavedRecipes st = JArr (map JStr names)"
  shows "fst (deleteSavedRecipe (JStr name) st) = Normal
       \<and> (writable (localStorage st)
            (text_of (JSON_stringify (JArr (map JStr (removeAll name names))))) \<longrightarrow>
          stored (localStorage (snd (deleteSavedRecipe (JStr name) st))) =
            Some (text_of (JSON_stringify (JArr (map JStr (removeAll name names))))))
       \<and> (store_accepts st (JArr (map JStr (removeAll name names))) \<longrightarrow>
          getSavedRecipes (snd (deleteSavedRecipe (JStr name) st)) =
            JArr (map JStr (removeAll name names)))
       \<and> (name \<notin> set names \<longrightarrow>
          getSavedRecipes (snd (deleteSavedRecipe (JStr name) st)) = getSavedRecipes st)"
proof -
  let ?v = "JArr (map JStr (removeAll name names))"
  have d: "deleteSavedRecipe (JStr name) st = renderSavedRecipesList (setSavedRecipes ?v st)"
    using assms by (simp add: deleteSavedRecipe_def filter_names)
  have sto: "localStorage (snd (deleteSavedRecipe (JStr name) st)) =
      localStorage (setSavedRecipes ?v st)"
    unfolding d by (rule renderSavedRecipesList_storage)
  have l: "getSavedRecipes (snd (deleteSavedRecipe (JStr name) st)) =
      getSavedRecipes (setSavedRecipes ?v st)"
    using getSavedRecipes_storage[OF sto] .
  have arr: "\<exists>xs. getSavedRecipes (setSavedRecipes ?v st) = JArr xs"
    using assms unfolding getSavedRecipes_after_set by auto
  have 1: "fst (deleteSavedRecipe (JStr name) st) = Normal"
    using arr renderSavedRecipesList_list unfolding d by fastforce
  have 2: "stored (localStorage (snd (deleteSavedRecipe (JStr name) st))) =
      Some (text_of (JSON_stringify ?v))"
    if "writable (localStorage st) (text_of (JSON_stringify ?v))"
    unfolding sto using that by (simp add: setSavedRecipes_def setItem_def)
  have 3: "getSavedRecipes (snd (deleteSavedRecipe (JStr name) st)) = ?v"
    if "store_accepts st ?v"
    unfolding l getSavedRecipes_after_set using that by (simp add: store_accepts_def)
  have 4: "getSavedRecipes (snd (deleteSavedRecipe (JStr name) st)) = getSavedRecipes st"
    if "name \<notin> set names"
  proof -
    have same: "removeAll name names = names" using that by simp
    have "\<not> readable (localStorage st) \<Longrightarrow> getSavedRecipes st = JArr []"
      by (simp add: getSavedRecipes_def getItem_def)
    then show ?thesis
      unfolding l getSavedRecipes_after_set same using assms by auto
  qed
  show ?thesis using 1 2 3 4 by blast
qed

theorem deleteSavedRecipe_removes_witness:
  "getSavedRecipes (example_page soup (working_storage (Some (js ''[\"Lasagne\",\"Soup\",\"Lasagne\"]''))))
     = JArr [JStr (js ''Lasagne''), JStr (js ''Soup''), JStr (js ''Lasagne'')]
   \<and> store_accepts (example_page soup (working_storage (Some (js ''[\"Lasagne\",\"Soup\",\"Lasagne\"]''))))
        (JArr [JStr (js ''Soup'')])
   \<and> fst (deleteSavedRecipe (JStr (js ''Lasagne''))
        (example_page soup (working_storage (Some (js ''[\"Lasagne\",\"Soup\",\"Lasagne\"]''))))) = Normal
   \<and> stored (localStorage (snd (deleteSavedRecipe (JStr (js ''Lasagne''))
        (example_page soup (working_storage (Some (js ''[\"Lasagne\",\"Soup\",\"Lasagne\"]'')))))))
       = Some (js ''[\"Soup\"]'')
   \<and> getSavedRecipes (snd (deleteSavedRecipe (JStr (js ''Lasagne''))
        (example_page soup (working_storage (Some (js ''[\"Lasagne\",\"Soup\",\"Lasagne\"]''))))))
       = JArr [JStr (js ''Soup'')]
   \<and> js ''Pie'' \<notin> set [js ''Lasagne'', js ''Soup'', js ''Lasagne'']
   \<and> getSavedRecipes (snd (deleteSavedRecipe (JStr (js ''Pie''))
        (example_page soup (working_storage (Some (js ''[\"Lasagne\",\"Soup\",\"Lasagne\"]''))))))
       = JArr [JStr (js ''Lasagne''), JStr (js ''Soup''), JStr (js ''Lasagne'')]"
proof -
  let ?p = "example_page soup (working_storage (Some (js ''[\"Lasagne\",\"Soup\",\"Lasagne\"]'')))"
  let ?names = "[js ''Lasagne'', js ''Soup'', js ''Lasagne'']"
  have l: "getSavedRecipes ?p = JArr [JStr (js ''Lasagne''), JStr (js ''Soup''), JStr (js ''Lasagne'')]"
    by code_simp
  have h: "getSavedRecipes ?p = JArr (map JStr ?names)" using l by simp
  have ne: "js ''Soup'' \<noteq> js ''Lasagne''" "js ''Pie'' \<noteq> js ''Lasagne''" "js ''Pie'' \<noteq> js ''Soup''"
    by (simp_all add: js_def)
  have rm: "removeAll (js ''Lasagne'') ?names = [js ''Soup'']" using ne by simp
  have notin: "js ''Pie'' \<notin> set ?names" using ne by simp
  have acc: "store_accepts ?p v" "writable (localStorage ?p) t" for v t
    by (simp_all add: store_accepts_def example_page_def working_storage_def)
  have tx: "text_of (JSON_stringify (JArr [JStr (js ''Soup'')])) = js ''[\"Soup\"]''" by code_simp
  note t1 = deleteSavedRecipe_removes[OF h, of "js ''Lasagne''", unfolded rm]
  note t2 = deleteSavedRecipe_removes[OF h, of "js ''Pie''"]
  have 1: "fst (deleteSavedRecipe (JStr (js ''Lasagne'')) ?p) = Normal" using t1 by blast
  have 2: "stored (localStorage (snd (deleteSavedRecipe (JStr (js ''Lasagne'')) ?p))) =
      Some (js ''[\"Soup\"]'')"
    using t1 acc(2) by (simp add: tx)
  have 3: "getSavedRecipes (snd (deleteSavedRecipe (JStr (js ''Lasagne'')) ?p)) =
      JArr [JStr (js ''Soup'')]"
    using t1 acc(1) by simp
  have 4: "getSavedRecipes (snd (deleteSavedRecipe (JStr (js ''Pie'')) ?p)) =
      JArr [JStr (js ''Lasagne''), JStr (js ''Soup''), JStr (js ''Lasagne'')]"
    using t2 notin l by simp
  show ?thesis using l acc(1) 1 2 3 notin 4 by blast
qed

end
